theory Spec2Isabelle
  imports Main
begin

section \<open>Data model of the daily plan generation service\<close>

text \<open>
  The development follows \<^verbatim>\<open>apps/backend/src/services/aiService.ts\<close> (class
  \<^verbatim>\<open>AIService\<close>), the Prisma schema and the type declarations of the backend.
  A \<^verbatim>\<open>Date\<close> is its \<^verbatim>\<open>getTime()\<close> value, the milliseconds since the epoch;
  a nullable field is an \<open>option\<close>. Fields that no function below reads (names,
  descriptions, categories, creation stamps) are left out of the records. Two enum
  members share their name with a member of another enum and carry a suffix or prefix
  here: \<open>MEDIUM_PRIORITY\<close> is the project priority \<^verbatim>\<open>MEDIUM\<close>,
  \<open>PROJECT_COMPLETED\<close> the project status \<^verbatim>\<open>COMPLETED\<close>. A record field named
  \<^verbatim>\<open>id\<close>, \<^verbatim>\<open>priority\<close>, \<^verbatim>\<open>status\<close>, \<^verbatim>\<open>userId\<close> or \<^verbatim>\<open>tasks\<close> in
  several types carries the name of its type.
\<close>

type_synonym Date = int

datatype ProjectPriority = HIGH | MEDIUM_PRIORITY | LOW

datatype ProjectStatus = ACTIVE | PAUSED | PROJECT_COMPLETED

datatype TaskStatus = NOT_STARTED | IN_PROGRESS | COMPLETED | POSTPONED

datatype TaskComplexity = VERY_SMALL | SMALL | MEDIUM | LARGE | VERY_LARGE

datatype EnergyType = CREATIVE | ROUTINE | COMMUNICATION | PHYSICAL

record TaskDTO =
  task_id :: string
  task_priority :: int
  complexity :: TaskComplexity
  energyType :: EnergyType
  task_status :: TaskStatus
  projectId :: string

record ProjectDTO =
  project_id :: string
  project_priority :: ProjectPriority
  project_status :: ProjectStatus
  softDeadline :: "Date option"
  hardDeadline :: "Date option"
  project_userId :: string
  project_tasks :: "TaskDTO list"

record UserPreferences =
  preferences_userId :: string
  maxTasksPerDay :: int
  preferredProjectsPerDay :: int
  peakProductivityStart :: "string option"
  peakProductivityEnd :: "string option"
  shortTermGoals :: "string list option"

record DailyPlanTask =
  isCompleted :: bool

record DailyPlan =
  plan_userId :: string
  plan_date :: Date
  plan_tasks :: "DailyPlanTask list"

record HistoryEntry =
  date :: Date
  tasksCompleted :: nat
  tasksPlanned :: nat

record UserContext =
  dailyLimit :: int
  projectsPerDay :: int
  peakHours :: "string option"
  currentGoals :: "string list option"

record AIPromptContext =
  user :: UserContext
  projects :: "ProjectDTO list"
  availableTasks :: "TaskDTO list"
  completionHistory :: "HistoryEntry list"

record PlanTask =
  taskId :: string
  order :: int
  recommendedStartTime :: "string option"
  recommendedEndTime :: "string option"
  aiAdvice :: "string option"

record AIGeneratedPlan =
  tasks :: "PlanTask list"
  reasoning :: string

subsection \<open>Errors\<close>

text \<open>
  A thrown value is a record of the properties the handlers inspect: \<open>status\<close> is the
  HTTP status an error of the OpenAI client carries, \<open>statusCode\<close> and \<open>code\<close> are
  those of \<^verbatim>\<open>AppError\<close>. The members of \<^verbatim>\<open>enum ErrorCode\<close> are strings.
\<close>

record JsError =
  message :: string
  status :: "int option"
  statusCode :: "int option"
  code :: "string option"

definition NOT_FOUND :: string where
  "NOT_FOUND = ''NOT_FOUND''"

definition INTERNAL_SERVER_ERROR :: string where
  "INTERNAL_SERVER_ERROR = ''INTERNAL_SERVER_ERROR''"

definition SERVICE_UNAVAILABLE :: string where
  "SERVICE_UNAVAILABLE = ''SERVICE_UNAVAILABLE''"

definition createAIError :: "string \<Rightarrow> string \<Rightarrow> JsError" where
  "createAIError msg c =
     \<lparr>message = msg, status = None,
      statusCode = Some (if c = SERVICE_UNAVAILABLE then 503 else 500),
      code = Some c\<rparr>"

text \<open>JavaScript truthiness of an optional string and of an optional number.\<close>

definition truthyString :: "string option \<Rightarrow> bool" where
  "truthyString v = (case v of None \<Rightarrow> False | Some s \<Rightarrow> s \<noteq> [])"

definition truthyNumber :: "int option \<Rightarrow> bool" where
  "truthyNumber v = (case v of None \<Rightarrow> False | Some n \<Rightarrow> n \<noteq> 0)"

section \<open>The plan validator: validateAndTransformResponse\<close>

text \<open>
  The parsed reply of the generative service. \<open>tasks_raw = None\<close> stands for a
  \<^verbatim>\<open>tasks\<close> property that is absent or not an array, \<open>reasoning_raw = None\<close> for a
  \<^verbatim>\<open>reasoning\<close> that is absent or not a string; in an item, \<open>None\<close> is an absent
  property.
\<close>

record RawTask =
  taskId_raw :: "string option"
  order_raw :: "int option"
  recommendedStartTime_raw :: "string option"
  recommendedEndTime_raw :: "string option"
  aiAdvice_raw :: "string option"

record RawResponse =
  tasks_raw :: "RawTask list option"
  reasoning_raw :: "string option"

definition isDigit :: "char \<Rightarrow> bool" where
  "isDigit c = (c \<in> set ''0123456789'')"

text \<open>The regular expression \<^verbatim>\<open>/^([01]\d|2[0-3]):([0-5]\d)$/\<close>.\<close>

definition timePattern :: "string \<Rightarrow> bool" where
  "timePattern s =
     (length s = 5 \<and>
      ((s ! 0 \<in> set ''01'' \<and> isDigit (s ! 1)) \<or> (s ! 0 = CHR ''2'' \<and> s ! 1 \<in> set ''0123'')) \<and>
      s ! 2 = CHR '':'' \<and> s ! 3 \<in> set ''012345'' \<and> isDigit (s ! 4))"

text \<open>
  \<^verbatim>\<open>if (t && !re.test(t)) t = null;\<close> followed by \<^verbatim>\<open>t || null\<close>.
\<close>

definition checkTime :: "string option \<Rightarrow> string option" where
  "checkTime t =
     (let t' = (if truthyString t \<and> \<not> timePattern (the t) then None else t)
      in if truthyString t' then t' else None)"

definition invalidTaskId :: "string option \<Rightarrow> JsError" where
  "invalidTaskId tid =
     createAIError (''Invalid task ID in AI response: '' @
                      (case tid of None \<Rightarrow> ''undefined'' | Some s \<Rightarrow> s))
       INTERNAL_SERVER_ERROR"

definition validatedTask :: "RawTask \<Rightarrow> nat \<Rightarrow> PlanTask" where
  "validatedTask task index =
     \<lparr>taskId = the (taskId_raw task),
      order = (if truthyNumber (order_raw task) then the (order_raw task) else int index + 1),
      recommendedStartTime = checkTime (recommendedStartTime_raw task),
      recommendedEndTime = checkTime (recommendedEndTime_raw task),
      aiAdvice = (if truthyString (aiAdvice_raw task) then aiAdvice_raw task else None)\<rparr>"

text \<open>
  The callback of \<^verbatim>\<open>response.tasks.map\<close>, run from index \<open>index\<close> on: the first
  item whose id is missing, empty or unknown throws, and the whole \<^verbatim>\<open>map\<close> with it.
\<close>

fun validateTasks :: "string list \<Rightarrow> nat \<Rightarrow> RawTask list \<Rightarrow> JsError + PlanTask list" where
  "validateTasks availableTaskIds index [] = Inr []"
| "validateTasks availableTaskIds index (task # rest) =
     (if \<not> truthyString (taskId_raw task) \<or> the (taskId_raw task) \<notin> set availableTaskIds
      then Inl (invalidTaskId (taskId_raw task))
      else (case validateTasks availableTaskIds (Suc index) rest of
              Inl e \<Rightarrow> Inl e
            | Inr validated \<Rightarrow> Inr (validatedTask task index # validated)))"

text \<open>
  \<^verbatim>\<open>xs.slice(0, n)\<close>: a negative \<open>n\<close> counts from the end of the array.
\<close>

definition slice0 :: "int \<Rightarrow> 'a list \<Rightarrow> 'a list" where
  "slice0 n xs = (if n < 0 then take (nat (int (length xs) + n)) xs else take (nat n) xs)"

definition validateAndTransformResponse ::
    "RawResponse \<Rightarrow> AIPromptContext \<Rightarrow> JsError + AIGeneratedPlan" where
  "validateAndTransformResponse response context =
     (if tasks_raw response = None \<or> the (tasks_raw response) = []
      then Inl (createAIError ''Invalid AI response: missing or empty tasks array''
                  INTERNAL_SERVER_ERROR)
      else if \<not> truthyString (reasoning_raw response)
      then Inl (createAIError ''Invalid AI response: missing or invalid reasoning''
                  INTERNAL_SERVER_ERROR)
      else (case validateTasks (map task_id (availableTasks context)) 0
                   (the (tasks_raw response)) of
              Inl e \<Rightarrow> Inl e
            | Inr validatedTasks \<Rightarrow>
                Inr \<lparr>tasks = slice0 (dailyLimit (user context)) validatedTasks,
                     reasoning = the (reasoning_raw response)\<rparr>))"

section \<open>The context builder: buildPromptContext\<close>

text \<open>
  The database behind the Prisma client: each table is either the rows a query on it
  can see or the error with which a query on it rejects. The rows of \<open>project\<close> stand
  in the order in which the database delivers them for the \<^verbatim>\<open>orderBy\<close> clause of
  the query, each with its related task rows (whose \<open>projectId\<close> is the project's id);
  the \<^verbatim>\<open>where\<close> clauses are applied here.
\<close>

record Prisma =
  userPreferences :: "JsError + UserPreferences list"
  project :: "JsError + ProjectDTO list"
  dailyPlan :: "JsError + DailyPlan list"

definition notFoundError :: JsError where
  "notFoundError =
     \<lparr>message = ''User preferences not found'', status = None,
      statusCode = Some 404, code = Some NOT_FOUND\<rparr>"

text \<open>
  The clock of the process: the time value \<^verbatim>\<open>new Date()\<close> reads, and the time zone
  as ECMAScript sees it, \<open>localTZA t\<close> the offset of local time from UTC in milliseconds at
  the UTC instant \<open>t\<close> (\<^verbatim>\<open>LocalTZA(t, true)\<close>) and \<open>localTZAofLocal t\<close> the
  offset that belongs to the local time value \<open>t\<close> (\<^verbatim>\<open>LocalTZA(t, false)\<close>).
\<close>

record Clock =
  currentTime :: Date
  localTZA :: "Date \<Rightarrow> int"
  localTZAofLocal :: "Date \<Rightarrow> int"

text \<open>
  \<^verbatim>\<open>new Date()\<close> followed by \<^verbatim>\<open>setDate(getDate() - 7)\<close>. \<^verbatim>\<open>setDate\<close> works on
  the local time \<open>t\<close>: it keeps the year, the month and the time within the day, takes
  the day of the month seven lower, which makes the local time value seven days of
  86400000 ms smaller, and turns the result back into UTC with the offset that belongs
  to that local time.
\<close>

definition sevenDaysBefore :: "Clock \<Rightarrow> Date" where
  "sevenDaysBefore now =
     (let t = currentTime now + localTZA now (currentTime now);
          newDate = t - 7 * 86400000
      in newDate - localTZAofLocal now newDate)"

definition historyData :: "DailyPlan \<Rightarrow> HistoryEntry" where
  "historyData plan =
     \<lparr>date = plan_date plan,
      tasksCompleted = length (filter isCompleted (plan_tasks plan)),
      tasksPlanned = length (plan_tasks plan)\<rparr>"

definition openTasks :: "ProjectDTO \<Rightarrow> ProjectDTO" where
  "openTasks p =
     p\<lparr>project_tasks :=
         filter (\<lambda>t. task_status t \<in> set [NOT_STARTED, IN_PROGRESS]) (project_tasks p)\<rparr>"

definition buildPromptContext ::
    "Prisma \<Rightarrow> Clock \<Rightarrow> string \<Rightarrow> Date \<Rightarrow> JsError + AIPromptContext" where
  "buildPromptContext prisma now userId targetDate =
     (case userPreferences prisma of
        Inl e \<Rightarrow> Inl e
      | Inr preferenceRows \<Rightarrow>
         (case find (\<lambda>r. preferences_userId r = userId) preferenceRows of
            None \<Rightarrow> Inl notFoundError
          | Some prefs \<Rightarrow>
             (case project prisma of
                Inl e \<Rightarrow> Inl e
              | Inr projectRows \<Rightarrow>
                 (let found = map openTasks
                        (filter (\<lambda>p. project_userId p = userId \<and> project_status p = ACTIVE)
                           projectRows);
                      projectDTOs = filter (\<lambda>p. project_tasks p \<noteq> []) found;
                      sevenDaysAgo = sevenDaysBefore now
                  in (case dailyPlan prisma of
                        Inl e \<Rightarrow> Inl e
                      | Inr planRows \<Rightarrow>
                          Inr \<lparr>user =
                                 \<lparr>dailyLimit = maxTasksPerDay prefs,
                                  projectsPerDay = preferredProjectsPerDay prefs,
                                  peakHours =
                                    (if truthyString (peakProductivityStart prefs)
                                     then Some (the (peakProductivityStart prefs) @ '' - '' @
                                            (case peakProductivityEnd prefs of
                                               None \<Rightarrow> ''null'' | Some e \<Rightarrow> e))
                                     else None),
                                  currentGoals = shortTermGoals prefs\<rparr>,
                               projects = projectDTOs,
                               availableTasks = concat (map project_tasks projectDTOs),
                               completionHistory =
                                 map historyData
                                   (filter (\<lambda>plan. plan_userId plan = userId \<and>
                                              sevenDaysAgo \<le> plan_date plan \<and>
                                              plan_date plan < targetDate)
                                      planRows)\<rparr>)))))"

section \<open>The heuristic fallback planner: generateFallbackPlan\<close>

text \<open>
  \<^verbatim>\<open>Array.prototype.sort\<close> is the engine's: the backend runs on Node, whose V8
  sorts with TimSort. An array of fewer than 64 elements is one run there:
  \<^verbatim>\<open>CountAndMakeRun\<close> takes the longest prefix that the comparator calls ascending,
  or strictly descending (then it is reversed), starting with
  \<^verbatim>\<open>comparefn(a[1], a[0])\<close>, and \<^verbatim>\<open>BinaryInsertionSort\<close> puts every later
  element into the sorted part, to the left of the element in the middle when
  \<^verbatim>\<open>comparefn(pivot, middle)\<close> is negative and to its right otherwise. Longer arrays
  are cut into runs made in this way, which are merged; for a comparator that is a
  consistent ordering the result is the list below all the same, as the sort is stable.
\<close>

fun extendRun :: "('a \<Rightarrow> 'a \<Rightarrow> int) \<Rightarrow> bool \<Rightarrow> 'a \<Rightarrow> 'a list \<Rightarrow> nat" where
  "extendRun comparefn isDescending previousElement [] = 0"
| "extendRun comparefn isDescending previousElement (currentElement # rest) =
     (let order = comparefn currentElement previousElement
      in if (if isDescending then order \<ge> 0 else order < 0) then 0
         else Suc (extendRun comparefn isDescending currentElement rest))"

text \<open>The run, made ascending, and the elements after it.\<close>

definition countAndMakeRun :: "('a \<Rightarrow> 'a \<Rightarrow> int) \<Rightarrow> 'a list \<Rightarrow> 'a list \<times> 'a list" where
  "countAndMakeRun comparefn xs =
     (case xs of
        elementHigh # elementLow # rest \<Rightarrow>
          (let isDescending = comparefn elementLow elementHigh < 0;
               runLength = 2 + extendRun comparefn isDescending elementLow rest
           in (if isDescending then rev (take runLength xs) else take runLength xs,
               drop runLength xs))
      | _ \<Rightarrow> (xs, []))"

function binarySearch :: "('a \<Rightarrow> 'a \<Rightarrow> int) \<Rightarrow> 'a \<Rightarrow> 'a list \<Rightarrow> nat \<Rightarrow> nat \<Rightarrow> nat" where
  "binarySearch comparefn pivot workArray left right =
     (if left < right then
        (if comparefn pivot (workArray ! (left + (right - left) div 2)) < 0
         then binarySearch comparefn pivot workArray left (left + (right - left) div 2)
         else binarySearch comparefn pivot workArray (left + (right - left) div 2 + 1) right)
      else left)"
  by pat_completeness auto
termination
  by (relation "measure (\<lambda>(comparefn, pivot, workArray, left, right). right - left)") auto

declare binarySearch.simps [simp del]

definition insertPivot :: "('a \<Rightarrow> 'a \<Rightarrow> int) \<Rightarrow> 'a list \<Rightarrow> 'a \<Rightarrow> 'a list" where
  "insertPivot comparefn workArray pivot =
     (let left = binarySearch comparefn pivot workArray 0 (length workArray)
      in take left workArray @ pivot # drop left workArray)"

definition sortBy :: "('a \<Rightarrow> 'a \<Rightarrow> int) \<Rightarrow> 'a list \<Rightarrow> 'a list" where
  "sortBy comparefn xs =
     (case countAndMakeRun comparefn xs of
        (run, later) \<Rightarrow> foldl (insertPivot comparefn) run later)"

definition compareProjects :: "ProjectDTO \<Rightarrow> ProjectDTO \<Rightarrow> int" where
  "compareProjects a b =
     (if hardDeadline a \<noteq> None \<and> hardDeadline b \<noteq> None
      then the (hardDeadline a) - the (hardDeadline b)
      else if hardDeadline a \<noteq> None then - 1
      else if hardDeadline b \<noteq> None then 1
      else if project_priority a \<noteq> project_priority b
      then (if project_priority a = HIGH then - 1
            else if project_priority a = LOW then 1 else 0)
      else if softDeadline a \<noteq> None \<and> softDeadline b \<noteq> None
      then the (softDeadline a) - the (softDeadline b)
      else if softDeadline a \<noteq> None then - 1
      else if softDeadline b \<noteq> None then 1
      else 0)"

fun complexityOrder :: "TaskComplexity \<Rightarrow> int" where
  "complexityOrder MEDIUM = 1"
| "complexityOrder SMALL = 2"
| "complexityOrder LARGE = 3"
| "complexityOrder VERY_SMALL = 4"
| "complexityOrder VERY_LARGE = 5"

definition compareTasks :: "TaskDTO \<Rightarrow> TaskDTO \<Rightarrow> int" where
  "compareTasks a b =
     (if task_priority a \<noteq> task_priority b then task_priority b - task_priority a
      else complexityOrder (complexity a) - complexityOrder (complexity b))"

definition selectedProjects :: "AIPromptContext \<Rightarrow> ProjectDTO list" where
  "selectedProjects context =
     slice0 (projectsPerDay (user context)) (sortBy compareProjects (projects context))"

definition selectedTasks :: "AIPromptContext \<Rightarrow> TaskDTO list" where
  "selectedTasks context =
     slice0 (dailyLimit (user context))
       (sortBy compareTasks
          (concat (map (\<lambda>p. filter (\<lambda>task. projectId task = project_id p)
                               (availableTasks context))
                     (selectedProjects context))))"

subsection \<open>The balanced order\<close>

definition isEasy :: "TaskDTO \<Rightarrow> bool" where
  "isEasy t = (complexity t \<in> set [VERY_SMALL, SMALL])"

definition isMedium :: "TaskDTO \<Rightarrow> bool" where
  "isMedium t = (complexity t = MEDIUM)"

definition isComplex :: "TaskDTO \<Rightarrow> bool" where
  "isComplex t = (complexity t \<in> set [LARGE, VERY_LARGE])"

text \<open>
  The \<^verbatim>\<open>while\<close> loop over the three groups; \<^verbatim>\<open>shift()\<close> takes the head of a
  group. The innermost \<^verbatim>\<open>else if\<close> of either branch holds whenever it is reached,
  for the loop's condition says that some group is not empty.
\<close>

function alternate ::
    "TaskDTO list \<Rightarrow> TaskDTO list \<Rightarrow> TaskDTO list \<Rightarrow> TaskDTO list \<Rightarrow> TaskDTO list" where
  "alternate easy medium complex orderedTasks =
     (if easy \<noteq> [] \<or> medium \<noteq> [] \<or> complex \<noteq> [] then
        (if orderedTasks \<noteq> [] \<and>
            complexity (last orderedTasks) \<in> set [LARGE, VERY_LARGE, MEDIUM] then
           (if easy \<noteq> [] then alternate (tl easy) medium complex (orderedTasks @ [hd easy])
            else if medium \<noteq> [] then
              alternate easy (tl medium) complex (orderedTasks @ [hd medium])
            else alternate easy medium (tl complex) (orderedTasks @ [hd complex]))
         else
           (if complex \<noteq> [] then
              alternate easy medium (tl complex) (orderedTasks @ [hd complex])
            else if medium \<noteq> [] then
              alternate easy (tl medium) complex (orderedTasks @ [hd medium])
            else alternate (tl easy) medium complex (orderedTasks @ [hd easy])))
      else orderedTasks)"
  by pat_completeness auto
termination
  by (relation "measure (\<lambda>(easy, medium, complex, orderedTasks).
        length easy + length medium + length complex)") auto

declare alternate.simps [simp del]

definition balancedOrder :: "TaskDTO list \<Rightarrow> TaskDTO list" where
  "balancedOrder selected =
     (let easy = filter isEasy selected;
          medium = filter isMedium selected;
          complex = filter isComplex selected
      in if medium \<noteq> [] then alternate easy (tl medium) complex [hd medium]
         else if easy \<noteq> [] then alternate (tl easy) medium complex [hd easy]
         else if complex \<noteq> [] then alternate easy medium (tl complex) [hd complex]
         else alternate easy medium complex [])"

definition orderedTasks :: "AIPromptContext \<Rightarrow> TaskDTO list" where
  "orderedTasks context = balancedOrder (selectedTasks context)"

subsection \<open>Time blocks, advice and reasoning\<close>

fun complexityDuration :: "TaskComplexity \<Rightarrow> nat" where
  "complexityDuration VERY_SMALL = 15"
| "complexityDuration SMALL = 30"
| "complexityDuration MEDIUM = 60"
| "complexityDuration LARGE = 90"
| "complexityDuration VERY_LARGE = 120"

definition digitChar :: "nat \<Rightarrow> char" where
  "digitChar d = ''0123456789'' ! d"

text \<open>\<^verbatim>\<open>toString()\<close> of a non-negative integer, and \<^verbatim>\<open>padStart(2, '0')\<close>.\<close>

fun toStringNat :: "nat \<Rightarrow> string" where
  "toStringNat n =
     (if n < 10 then [digitChar n] else toStringNat (n div 10) @ [digitChar (n mod 10)])"

declare toStringNat.simps [simp del]

definition padStart2 :: "string \<Rightarrow> string" where
  "padStart2 s = replicate (2 - length s) (CHR ''0'') @ s"

definition formatTime :: "nat \<Rightarrow> nat \<Rightarrow> string" where
  "formatTime hour minute =
     padStart2 (toStringNat hour) @ '':'' @ padStart2 (toStringNat minute)"

definition startHour :: nat where
  "startHour = 9"

text \<open>The inner \<^verbatim>\<open>for\<close> loop: the minutes of the tasks before \<open>index\<close>.\<close>

definition currentMinutes :: "TaskDTO list \<Rightarrow> nat \<Rightarrow> nat" where
  "currentMinutes ordered index =
     sum_list (map (\<lambda>t. complexityDuration (complexity t)) (take index ordered))"

fun adviceFor :: "EnergyType \<Rightarrow> string" where
  "adviceFor CREATIVE = ''Find a quiet space with minimal distractions for this creative task.''"
| "adviceFor ROUTINE = ''Consider using a timer to stay on track with this routine task.''"
| "adviceFor COMMUNICATION = ''Prepare key points in advance for this communication task.''"
| "adviceFor PHYSICAL = ''Make sure to take short breaks during this physical task.''"

definition planTask :: "TaskDTO list \<Rightarrow> nat \<Rightarrow> PlanTask" where
  "planTask ordered index =
     (let task = ordered ! index;
          minutes = currentMinutes ordered index;
          ending = minutes + complexityDuration (complexity task)
      in \<lparr>taskId = task_id task,
          order = int index + 1,
          recommendedStartTime = Some (formatTime (startHour + minutes div 60) (minutes mod 60)),
          recommendedEndTime = Some (formatTime (startHour + ending div 60) (ending mod 60)),
          aiAdvice = Some (adviceFor (energyType task))\<rparr>)"

definition fallbackTasks :: "TaskDTO list \<Rightarrow> PlanTask list" where
  "fallbackTasks ordered = map (planTask ordered) [0..<length ordered]"

definition newline :: string where
  "newline = [CHR 0x0A]"

text \<open>The template literal after \<^verbatim>\<open>trim()\<close>.\<close>

definition fallbackReasoning :: "nat \<Rightarrow> nat \<Rightarrow> string" where
  "fallbackReasoning taskCount projectCount =
     ''This plan was generated using the fallback system because the AI service was unavailable.''
     @ newline @ ''It includes '' @ toStringNat taskCount @ '' tasks from ''
     @ toStringNat projectCount @ '' different projects, prioritizing:''
     @ newline @ ''1. Projects with upcoming deadlines''
     @ newline @ ''2. High priority tasks''
     @ newline @ ''3. A balance of task complexity (alternating between simpler and more complex tasks)''
     @ newline @ ''4. Variety in task types to maintain engagement''
     @ newline @ newline
     @ ''The plan starts at 9:00 AM and includes estimated time blocks based on each task's complexity.''
     @ newline
     @ ''For best results, try to follow the suggested order, but feel free to adjust based on your energy levels.''"

definition heuristicPlan :: "AIPromptContext \<Rightarrow> AIGeneratedPlan" where
  "heuristicPlan context =
     (let planned = fallbackTasks (orderedTasks context)
      in \<lparr>tasks = planned,
          reasoning = fallbackReasoning (length planned) (length (selectedProjects context))\<rparr>)"

definition minimalPlan :: AIGeneratedPlan where
  "minimalPlan =
     \<lparr>tasks = [],
      reasoning = ''Unable to generate plan due to technical difficulties. Please try again later.''\<rparr>"

text \<open>
  The result of an \<^verbatim>\<open>async\<close> method is the outcome of its promise: \<open>Inl\<close> the
  value it rejects with, \<open>Inr\<close> the value it resolves to. The body of the
  \<^verbatim>\<open>try\<close> is \<open>fallbackAttempt\<close>; the \<^verbatim>\<open>catch\<close> turns every rejection into
  \<open>minimalPlan\<close>.
\<close>

definition fallbackAttempt ::
    "Prisma \<Rightarrow> Clock \<Rightarrow> string \<Rightarrow> Date \<Rightarrow> JsError + AIGeneratedPlan" where
  "fallbackAttempt prisma now userId targetDate =
     (case buildPromptContext prisma now userId targetDate of
        Inl e \<Rightarrow> Inl e
      | Inr context \<Rightarrow> Inr (heuristicPlan context))"

definition generateFallbackPlan ::
    "Prisma \<Rightarrow> Clock \<Rightarrow> string \<Rightarrow> Date \<Rightarrow> JsError + AIGeneratedPlan" where
  "generateFallbackPlan prisma now userId targetDate =
     (case fallbackAttempt prisma now userId targetDate of
        Inl e \<Rightarrow> Inr minimalPlan
      | Inr plan \<Rightarrow> Inr plan)"

section \<open>The advisor call and the orchestration\<close>

text \<open>
  What the one call to the generative service comes to: it rejects with an error, it
  resolves without content, its content is not the JSON text of an object, or its
  content parses to an object. The prompt is a string built from the context and has no
  part in the control flow.
\<close>

datatype Completion =
    Rejects JsError
  | NoContent
  | Unparseable
  | Parsed RawResponse

definition parseFailure :: JsError where
  "parseFailure = createAIError ''Failed to parse AI response'' INTERNAL_SERVER_ERROR"

text \<open>The body of the outer \<^verbatim>\<open>try\<close> of \<^verbatim>\<open>callOpenAI\<close>.\<close>

definition requestPlan :: "Completion \<Rightarrow> AIPromptContext \<Rightarrow> JsError + AIGeneratedPlan" where
  "requestPlan completion context =
     (case completion of
        Rejects e \<Rightarrow> Inl e
      | NoContent \<Rightarrow> Inl (createAIError ''Empty response from OpenAI'' INTERNAL_SERVER_ERROR)
      | Unparseable \<Rightarrow> Inl parseFailure
      | Parsed response \<Rightarrow>
          (case validateAndTransformResponse response context of
             Inl parseError \<Rightarrow> Inl parseFailure
           | Inr plan \<Rightarrow> Inr plan))"

text \<open>The outer \<^verbatim>\<open>catch\<close> of \<^verbatim>\<open>callOpenAI\<close>: what it throws for a caught error.\<close>

definition classify :: "JsError \<Rightarrow> JsError" where
  "classify error =
     (if status error = Some 429
      then createAIError ''Rate limit exceeded with OpenAI API'' SERVICE_UNAVAILABLE
      else if (case status error of None \<Rightarrow> False | Some s \<Rightarrow> s \<ge> 500)
      then createAIError ''OpenAI service is currently unavailable'' SERVICE_UNAVAILABLE
      else if truthyString (code error) then error
      else createAIError ''Failed to generate plan with AI'' SERVICE_UNAVAILABLE)"

definition callOpenAI :: "Completion \<Rightarrow> AIPromptContext \<Rightarrow> JsError + AIGeneratedPlan" where
  "callOpenAI completion context =
     (case requestPlan completion context of
        Inl error \<Rightarrow> Inl (classify error)
      | Inr plan \<Rightarrow> Inr plan)"

text \<open>
  \<open>prisma\<close> and \<open>now\<close> are the database and the clock when the context is built,
  \<open>prisma'\<close> and \<open>now'\<close> when the fallback builds it again. \<open>aiAttempt\<close> is the
  body of the \<^verbatim>\<open>try\<close>; \<^verbatim>\<open>saveAIHistory\<close> catches its own errors and returns
  nothing.
\<close>

definition aiAttempt ::
    "Prisma \<Rightarrow> Clock \<Rightarrow> Completion \<Rightarrow> string \<Rightarrow> Date \<Rightarrow> JsError + AIGeneratedPlan" where
  "aiAttempt prisma now completion userId targetDate =
     (case buildPromptContext prisma now userId targetDate of
        Inl e \<Rightarrow> Inl e
      | Inr context \<Rightarrow> callOpenAI completion context)"

definition generateDailyPlan ::
    "Prisma \<Rightarrow> Clock \<Rightarrow> Completion \<Rightarrow> Prisma \<Rightarrow> Clock \<Rightarrow> string \<Rightarrow> Date
       \<Rightarrow> JsError + AIGeneratedPlan" where
  "generateDailyPlan prisma now completion prisma' now' userId targetDate =
     (case aiAttempt prisma now completion userId targetDate of
        Inr generatedPlan \<Rightarrow> Inr generatedPlan
      | Inl error \<Rightarrow>
          (if code error = Some SERVICE_UNAVAILABLE
           then generateFallbackPlan prisma' now' userId targetDate
           else Inl error))"

section \<open>Vocabulary of the properties\<close>

text \<open>
  Reading a plan back: the number a string of decimal digits denotes, the minutes since
  midnight an \<^verbatim>\<open>H:MM\<close> text denotes, and the length in minutes of an item's time
  block.
\<close>

definition digitValue :: "char \<Rightarrow> nat" where
  "digitValue c = of_char c - 48"

definition parseNat :: "string \<Rightarrow> nat option" where
  "parseNat s =
     (if s \<noteq> [] \<and> list_all isDigit s
      then Some (foldl (\<lambda>n c. 10 * n + digitValue c) 0 s) else None)"

definition minutesOfTime :: "string \<Rightarrow> nat option" where
  "minutesOfTime s =
     (case (parseNat (takeWhile (\<lambda>c. c \<noteq> CHR '':'') s),
            parseNat (drop 1 (dropWhile (\<lambda>c. c \<noteq> CHR '':'') s))) of
        (Some h, Some m) \<Rightarrow> Some (60 * h + m)
      | _ \<Rightarrow> None)"

definition blockMinutes :: "PlanTask \<Rightarrow> nat option" where
  "blockMinutes item =
     (case (recommendedStartTime item, recommendedEndTime item) of
        (Some s, Some e) \<Rightarrow>
          (case (minutesOfTime s, minutesOfTime e) of
             (Some a, Some b) \<Rightarrow> if a \<le> b then Some (b - a) else None
           | _ \<Rightarrow> None)
      | _ \<Rightarrow> None)"

text \<open>
  Two neighbours of a list that both satisfy \<open>P\<close>, and the property that after such
  neighbours everything up to the end satisfies \<open>P\<close>. \<open>balanced\<close> is the invariant of
  the loop of \<open>alternate\<close>.
\<close>

definition hasPair :: "('a \<Rightarrow> bool) \<Rightarrow> 'a list \<Rightarrow> bool" where
  "hasPair P xs = (\<exists>i. Suc i < length xs \<and> P (xs ! i) \<and> P (xs ! Suc i))"

definition runsToEnd :: "('a \<Rightarrow> bool) \<Rightarrow> 'a list \<Rightarrow> bool" where
  "runsToEnd P xs =
     (\<forall>i j. Suc i < length xs \<and> P (xs ! i) \<and> P (xs ! Suc i) \<and> i < j \<and> j < length xs
        \<longrightarrow> P (xs ! j))"

definition balanced :: "TaskDTO list \<Rightarrow> TaskDTO list \<Rightarrow> TaskDTO list \<Rightarrow> TaskDTO list \<Rightarrow> bool" where
  "balanced easy medium complex ordered =
     (list_all isEasy easy \<and> list_all isMedium medium \<and> list_all isComplex complex \<and>
      runsToEnd isEasy ordered \<and> runsToEnd isComplex ordered \<and>
      (hasPair isEasy ordered \<longrightarrow> medium = [] \<and> complex = []) \<and>
      (hasPair isComplex ordered \<longrightarrow> easy = [] \<and> medium = []))"

section \<open>Sample data\<close>

text \<open>
  A user \<open>u1\<close> with a daily limit of three tasks and one project per day, the project
  and the three tasks of the scenario of the specification, replies of the generative
  service, and databases: one per list of project rows, with daily plans on the days 19,
  16 and 13, and one whose every query fails. \<open>noon20\<close> is a clock in UTC.
  \<open>newYorkClock\<close> reads half past midnight of 10 March 2026 in a zone that went from
  UTC-5 to UTC-4 on 8 March at 07:00 UTC, and \<open>marchDatabase\<close> has the plans of the
  local midnights of 4 March and 3 March. \<open>fiveDatabase\<close> has one task of every
  complexity under a daily limit of five.
\<close>

definition sampleTask :: "string \<Rightarrow> int \<Rightarrow> TaskComplexity \<Rightarrow> string \<Rightarrow> TaskDTO" where
  "sampleTask i p c pid =
     \<lparr>task_id = i, task_priority = p, complexity = c, energyType = ROUTINE,
      task_status = NOT_STARTED, projectId = pid\<rparr>"

definition sampleTasks :: "TaskDTO list" where
  "sampleTasks =
     [sampleTask ''t1'' 5 MEDIUM ''p1'', sampleTask ''t2'' 4 SMALL ''p1'',
      sampleTask ''t3'' 3 LARGE ''p1'']"

definition sampleProject :: "string \<Rightarrow> ProjectPriority \<Rightarrow> TaskDTO list \<Rightarrow> ProjectDTO" where
  "sampleProject i p ts =
     \<lparr>project_id = i, project_priority = p, project_status = ACTIVE, softDeadline = None,
      hardDeadline = None, project_userId = ''u1'', project_tasks = ts\<rparr>"

definition sampleContext :: AIPromptContext where
  "sampleContext =
     \<lparr>user = \<lparr>dailyLimit = 3, projectsPerDay = 1, peakHours = None, currentGoals = None\<rparr>,
      projects = [sampleProject ''p1'' HIGH sampleTasks],
      availableTasks = sampleTasks,
      completionHistory = []\<rparr>"

definition rawItem :: "string \<Rightarrow> int option \<Rightarrow> RawTask" where
  "rawItem i n =
     \<lparr>taskId_raw = Some i, order_raw = n, recommendedStartTime_raw = Some ''09:00'',
      recommendedEndTime_raw = Some ''9:30'', aiAdvice_raw = None\<rparr>"

definition sampleReply :: "RawTask list \<Rightarrow> RawResponse" where
  "sampleReply items = \<lparr>tasks_raw = Some items, reasoning_raw = Some ''ok''\<rparr>"

definition day :: Date where
  "day = 86400000"

definition samplePreferences :: UserPreferences where
  "samplePreferences =
     \<lparr>preferences_userId = ''u1'', maxTasksPerDay = 3, preferredProjectsPerDay = 1,
      peakProductivityStart = None, peakProductivityEnd = None, shortTermGoals = None\<rparr>"

definition samplePlan :: "int \<Rightarrow> DailyPlan" where
  "samplePlan d =
     \<lparr>plan_userId = ''u1'', plan_date = d * day,
      plan_tasks = [\<lparr>isCompleted = True\<rparr>, \<lparr>isCompleted = False\<rparr>]\<rparr>"

definition sampleDatabase :: "ProjectDTO list \<Rightarrow> Prisma" where
  "sampleDatabase rows =
     \<lparr>userPreferences = Inr [samplePreferences], project = Inr rows,
      dailyPlan = Inr [samplePlan 19, samplePlan 16, samplePlan 13]\<rparr>"

definition unreachable :: JsError where
  "unreachable =
     \<lparr>message = ''Can't reach database server'', status = None, statusCode = None,
      code = Some ''P1001''\<rparr>"

definition failingDatabase :: Prisma where
  "failingDatabase =
     \<lparr>userPreferences = Inl unreachable, project = Inl unreachable,
      dailyPlan = Inl unreachable\<rparr>"

definition midnight20 :: Date where
  "midnight20 = 20 * day"

definition noon20 :: Clock where
  "noon20 =
     \<lparr>currentTime = 20 * day + 43200000, localTZA = (\<lambda>t. 0), localTZAofLocal = (\<lambda>t. 0)\<rparr>"

definition largeTasks :: "TaskDTO list" where
  "largeTasks =
     [sampleTask ''t1'' 3 LARGE ''p1'', sampleTask ''t2'' 3 LARGE ''p1'',
      sampleTask ''t3'' 3 LARGE ''p1'']"

definition lowThenMedium :: "ProjectDTO list" where
  "lowThenMedium =
     [sampleProject ''pl'' LOW [sampleTask ''tl'' 3 MEDIUM ''pl''],
      sampleProject ''pm'' MEDIUM_PRIORITY [sampleTask ''tm'' 3 MEDIUM ''pm'']]"

definition httpFailure :: "int \<Rightarrow> JsError" where
  "httpFailure s = \<lparr>message = ''request failed'', status = Some s, statusCode = None, code = None\<rparr>"

definition mixedProjects :: "ProjectDTO list" where
  "mixedProjects =
     [sampleProject ''p0'' MEDIUM_PRIORITY [], sampleProject ''p1'' HIGH [],
      sampleProject ''p2'' LOW [],
      (sampleProject ''p3'' MEDIUM_PRIORITY [])\<lparr>softDeadline := Some (30 * day)\<rparr>]"

definition fiveTasks :: "TaskDTO list" where
  "fiveTasks =
     [sampleTask ''t1'' 3 VERY_LARGE ''p1'', sampleTask ''t2'' 3 VERY_SMALL ''p1'',
      sampleTask ''t3'' 3 LARGE ''p1'', sampleTask ''t4'' 3 SMALL ''p1'',
      sampleTask ''t5'' 3 MEDIUM ''p1'']"

definition fiveDatabase :: Prisma where
  "fiveDatabase =
     \<lparr>userPreferences = Inr [samplePreferences\<lparr>maxTasksPerDay := 5\<rparr>],
      project = Inr [sampleProject ''p1'' HIGH fiveTasks],
      dailyPlan = Inr []\<rparr>"

definition fourItems :: "RawTask list" where
  "fourItems =
     [rawItem ''t1'' None, rawItem ''t2'' (Some 0), rawItem ''t3'' (Some 3),
      rawItem ''t1'' (Some 9)]"

definition hour :: int where
  "hour = 3600000"




definition scenarioDatabase :: Prisma where
  "scenarioDatabase = sampleDatabase [sampleProject ''p1'' HIGH sampleTasks]"

definition largeDatabase :: Prisma where
  "largeDatabase = sampleDatabase [sampleProject ''p1'' HIGH largeTasks]"

definition lowMediumDatabase :: Prisma where
  "lowMediumDatabase = sampleDatabase lowThenMedium"

section \<open>Properties of the validator\<close>

lemma validateTasks_Inr:
  "validateTasks ids index ts = Inr validated \<Longrightarrow>
     validated = map (\<lambda>k. validatedTask (ts ! k) (index + k)) [0..<length ts] \<and>
     (\<forall>t \<in> set ts. truthyString (taskId_raw t) \<and> the (taskId_raw t) \<in> set ids)"
proof (induction ts arbitrary: index validated)
  case Nil
  then show ?case by simp
next
  case (Cons t ts)
  from Cons.prems obtain rest where
    ok: "truthyString (taskId_raw t)" "the (taskId_raw t) \<in> set ids" and
    rest: "validateTasks ids (Suc index) ts = Inr rest" and
    v: "validated = validatedTask t index # rest"
    by (auto split: if_splits sum.splits)
  from Cons.IH [OF rest] have
    r: "rest = map (\<lambda>k. validatedTask (ts ! k) (Suc index + k)) [0..<length ts]" and
    a: "\<forall>t \<in> set ts. truthyString (taskId_raw t) \<and> the (taskId_raw t) \<in> set ids"
    by simp_all
  have "map (\<lambda>k. validatedTask ((t # ts) ! k) (index + k)) [0..<length (t # ts)] =
        validatedTask t index # map (\<lambda>k. validatedTask (ts ! k) (Suc index + k)) [0..<length ts]"
    by (simp add: upt_rec [of 0] map_Suc_upt [symmetric] del: upt_Suc)
  with v r a ok show ?case by simp
qed

lemma validateTasks_Inl:
  "t \<in> set ts \<Longrightarrow> \<not> truthyString (taskId_raw t) \<or> the (taskId_raw t) \<notin> set ids \<Longrightarrow>
     \<exists>tid. validateTasks ids index ts = Inl (invalidTaskId tid)"
proof (induction ts arbitrary: index)
  case Nil
  then show ?case by simp
next
  case (Cons a ts)
  show ?case
  proof (cases "\<not> truthyString (taskId_raw a) \<or> the (taskId_raw a) \<notin> set ids")
    case True
    then show ?thesis by auto
  next
    case False
    with Cons.prems have "t \<in> set ts" by auto
    from Cons.IH [OF this Cons.prems(2), of "Suc index"] obtain tid where
      "validateTasks ids (Suc index) ts = Inl (invalidTaskId tid)" by blast
    with False show ?thesis by auto
  qed
qed

text \<open>
  Claim C8. If some item of a raw advisor plan has a \<^verbatim>\<open>taskId\<close> that is not the id
  of an available task of the context (or has none), the validator rejects the whole plan
  with an error of \<^verbatim>\<open>createAIError\<close>, whatever the other items are: no plan is
  returned.
\<close>

theorem unknown_task_rejects_plan:
  assumes "tasks_raw response = Some ts" and "task \<in> set ts"
    and "taskId_raw task \<notin> Some ` set (map task_id (availableTasks context))"
  shows "\<exists>msg. validateAndTransformResponse response context =
           Inl (createAIError msg INTERNAL_SERVER_ERROR)"
proof -
  have bad: "\<not> truthyString (taskId_raw task) \<or>
             the (taskId_raw task) \<notin> set (map task_id (availableTasks context))"
    using assms(3) by (cases "taskId_raw task") (auto simp: truthyString_def)
  from validateTasks_Inl [OF assms(2) bad] obtain tid where
    "validateTasks (map task_id (availableTasks context)) 0 ts = Inl (invalidTaskId tid)"
    by blast
  then show ?thesis
    using assms(1) by (auto simp: validateAndTransformResponse_def invalidTaskId_def)
qed

lemma accepted_plan_shape:
  assumes "validateAndTransformResponse response context = Inr plan"
  obtains ts where "tasks_raw response = Some ts" and "ts \<noteq> []"
    and "truthyString (reasoning_raw response)"
    and "reasoning plan = the (reasoning_raw response)"
    and "tasks plan = slice0 (dailyLimit (user context))
           (map (\<lambda>k. validatedTask (ts ! k) k) [0..<length ts])"
    and "\<forall>t \<in> set ts. truthyString (taskId_raw t) \<and>
           the (taskId_raw t) \<in> set (map task_id (availableTasks context))"
proof -
  from assms obtain ts validated where
    ts: "tasks_raw response = Some ts" "ts \<noteq> []" "truthyString (reasoning_raw response)" and
    v: "validateTasks (map task_id (availableTasks context)) 0 ts = Inr validated" and
    p: "plan = \<lparr>tasks = slice0 (dailyLimit (user context)) validated,
                reasoning = the (reasoning_raw response)\<rparr>"
    by (auto simp: validateAndTransformResponse_def split: if_splits sum.splits)
  from validateTasks_Inr [OF v] p ts that show thesis by simp
qed

lemma slice0_nth: "i < length (slice0 n xs) \<Longrightarrow> slice0 n xs ! i = xs ! i \<and> i < length xs"
  by (auto simp: slice0_def split: if_splits)

lemma slice0_length: "0 \<le> n \<Longrightarrow> int (length (slice0 n xs)) \<le> n"
  by (auto simp: slice0_def)

lemma slice0_subset: "set (slice0 n xs) \<subseteq> set xs"
  by (auto simp: slice0_def dest: in_set_takeD)

lemma checkTime_pattern: "checkTime t = Some s \<Longrightarrow> timePattern s"
  by (cases t) (auto simp: checkTime_def truthyString_def Let_def split: if_splits)

lemma accepted_item_order:
  assumes "validateAndTransformResponse response context = Inr plan"
    and "i < length (tasks plan)"
  shows "i < length (the (tasks_raw response)) \<and>
         order (tasks plan ! i) =
           (case order_raw (the (tasks_raw response) ! i) of
              None \<Rightarrow> int i + 1
            | Some n \<Rightarrow> if n = 0 then int i + 1 else n)"
proof -
  from assms(1) obtain ts where ts: "tasks_raw response = Some ts" and
    t: "tasks plan = slice0 (dailyLimit (user context))
           (map (\<lambda>k. validatedTask (ts ! k) k) [0..<length ts])"
    by (rule accepted_plan_shape)
  from assms(2) t slice0_nth [of i "dailyLimit (user context)" "map (\<lambda>k. validatedTask (ts ! k) k) [0..<length ts]"]
  have i: "i < length ts" and n: "tasks plan ! i = validatedTask (ts ! i) i"
    by simp_all
  show ?thesis using i ts
    by (simp add: n validatedTask_def truthyNumber_def split: option.splits)
qed

text \<open>
  Claim C4, as amended. When the validator accepts a raw plan and the daily limit is not
  negative, the plan has at most \<open>dailyLimit\<close> items, every \<^verbatim>\<open>taskId\<close> is the id of
  an available task, every time that is present matches the 24-hour pattern and the
  reasoning is not empty. An item whose supplied order is missing or zero has its 1-based
  position as order, and an item whose supplied order is positive keeps that order; so
  the orders are the dense sequence \<open>1..len\<close> when every item's supplied order is
  missing, zero or its own 1-based position.
\<close>

theorem accepted_plan_invariants:
  assumes "validateAndTransformResponse response context = Inr plan"
    and "0 \<le> dailyLimit (user context)"
  shows "int (length (tasks plan)) \<le> dailyLimit (user context) \<and>
         (\<forall>item \<in> set (tasks plan). taskId item \<in> set (map task_id (availableTasks context))) \<and>
         (\<forall>item \<in> set (tasks plan).
            (\<forall>s. recommendedStartTime item = Some s \<longrightarrow> timePattern s) \<and>
            (\<forall>s. recommendedEndTime item = Some s \<longrightarrow> timePattern s)) \<and>
         reasoning plan \<noteq> [] \<and>
         (\<forall>i < length (tasks plan).
            (order_raw (the (tasks_raw response) ! i) \<in> {None, Some 0} \<longrightarrow>
               order (tasks plan ! i) = int i + 1) \<and>
            (\<forall>n. order_raw (the (tasks_raw response) ! i) = Some n \<and> 0 < n \<longrightarrow>
               order (tasks plan ! i) = n)) \<and>
         ((\<forall>i < length (tasks plan).
             order_raw (the (tasks_raw response) ! i) \<in> {None, Some 0, Some (int i + 1)}) \<longrightarrow>
          map order (tasks plan) = [1..int (length (tasks plan))])"
proof -
  have kept: "\<forall>i < length (tasks plan).
            (order_raw (the (tasks_raw response) ! i) \<in> {None, Some 0} \<longrightarrow>
               order (tasks plan ! i) = int i + 1) \<and>
            (\<forall>n. order_raw (the (tasks_raw response) ! i) = Some n \<and> 0 < n \<longrightarrow>
               order (tasks plan ! i) = n)"
  proof (intro allI impI)
    fix i assume "i < length (tasks plan)"
    from accepted_item_order [OF assms(1) this]
    show "(order_raw (the (tasks_raw response) ! i) \<in> {None, Some 0} \<longrightarrow>
               order (tasks plan ! i) = int i + 1) \<and>
            (\<forall>n. order_raw (the (tasks_raw response) ! i) = Some n \<and> 0 < n \<longrightarrow>
               order (tasks plan ! i) = n)"
      by auto
  qed
  from assms(1) obtain ts where ts: "tasks_raw response = Some ts" and
    r: "truthyString (reasoning_raw response)" "reasoning plan = the (reasoning_raw response)" and
    t: "tasks plan = slice0 (dailyLimit (user context))
           (map (\<lambda>k. validatedTask (ts ! k) k) [0..<length ts])" and
    ids: "\<forall>t \<in> set ts. truthyString (taskId_raw t) \<and>
           the (taskId_raw t) \<in> set (map task_id (availableTasks context))"
    by (rule accepted_plan_shape)
  let ?all = "map (\<lambda>k. validatedTask (ts ! k) k) [0..<length ts]"
  have len: "int (length (tasks plan)) \<le> dailyLimit (user context)"
    unfolding t by (rule slice0_length [OF assms(2)])
  have mem: "\<exists>k < length ts. item = validatedTask (ts ! k) k"
    if "item \<in> set (tasks plan)" for item
  proof -
    from that have "item \<in> set ?all"
      using slice0_subset [of "dailyLimit (user context)" ?all] unfolding t by blast
    then show ?thesis by auto
  qed
  have inv2: "\<forall>item \<in> set (tasks plan). taskId item \<in> set (map task_id (availableTasks context))"
  proof
    fix item assume "item \<in> set (tasks plan)"
    from mem [OF this] obtain k where k: "k < length ts" "item = validatedTask (ts ! k) k" by blast
    with ids show "taskId item \<in> set (map task_id (availableTasks context))"
      by (simp add: validatedTask_def)
  qed
  have inv4: "\<forall>item \<in> set (tasks plan).
            (\<forall>s. recommendedStartTime item = Some s \<longrightarrow> timePattern s) \<and>
            (\<forall>s. recommendedEndTime item = Some s \<longrightarrow> timePattern s)"
  proof
    fix item assume "item \<in> set (tasks plan)"
    from mem [OF this] obtain k where k: "k < length ts" "item = validatedTask (ts ! k) k" by blast
    then show "(\<forall>s. recommendedStartTime item = Some s \<longrightarrow> timePattern s) \<and>
            (\<forall>s. recommendedEndTime item = Some s \<longrightarrow> timePattern s)"
      by (auto simp: validatedTask_def dest: checkTime_pattern)
  qed
  have inv5: "reasoning plan \<noteq> []"
    using r by (cases "reasoning_raw response") (auto simp: truthyString_def)
  have inv3: "map order (tasks plan) = [1..int (length (tasks plan))]"
    if h: "\<forall>i < length (tasks plan).
             order_raw (the (tasks_raw response) ! i) \<in> {None, Some 0, Some (int i + 1)}"
  proof (rule nth_equalityI)
    show "length (map order (tasks plan)) = length [1..int (length (tasks plan))]"
      by simp
  next
    fix i assume "i < length (map order (tasks plan))"
    then have i: "i < length (tasks plan)" by simp
    from i t slice0_nth [of i "dailyLimit (user context)" ?all]
    have il: "i < length ts" and n: "tasks plan ! i = validatedTask (ts ! i) i"
      by simp_all
    from h i ts have "order_raw (ts ! i) \<in> {None, Some 0, Some (int i + 1)}" by simp
    then have "order (tasks plan ! i) = int i + 1"
      by (auto simp: n validatedTask_def truthyNumber_def)
    moreover have "[1..int (length (tasks plan))] ! i = 1 + int i"
      using i by (intro nth_upto) simp
    ultimately show "map order (tasks plan) ! i = [1..int (length (tasks plan))] ! i"
      using i by simp
  qed
  from len inv2 inv4 inv5 kept inv3 show ?thesis by blast
qed


lemmas sample_defs =
  sampleTask_def sampleTasks_def sampleProject_def sampleContext_def rawItem_def sampleReply_def

lemmas validator_defs =
  validateAndTransformResponse_def validatedTask_def checkTime_def timePattern_def isDigit_def
  truthyString_def truthyNumber_def slice0_def invalidTaskId_def createAIError_def
  INTERNAL_SERVER_ERROR_def SERVICE_UNAVAILABLE_def

theorem unknown_task_rejects_plan_witness:
  "tasks_raw (sampleReply [rawItem ''t1'' (Some 1), rawItem ''t9'' (Some 2)]) =
     Some [rawItem ''t1'' (Some 1), rawItem ''t9'' (Some 2)] \<and>
   rawItem ''t9'' (Some 2) \<in> set [rawItem ''t1'' (Some 1), rawItem ''t9'' (Some 2)] \<and>
   taskId_raw (rawItem ''t9'' (Some 2)) \<notin> Some ` set (map task_id (availableTasks sampleContext)) \<and>
   (\<exists>msg. validateAndTransformResponse
            (sampleReply [rawItem ''t1'' (Some 1), rawItem ''t9'' (Some 2)]) sampleContext =
          Inl (createAIError msg INTERNAL_SERVER_ERROR))"
proof -
  have h1: "tasks_raw (sampleReply [rawItem ''t1'' (Some 1), rawItem ''t9'' (Some 2)]) =
     Some [rawItem ''t1'' (Some 1), rawItem ''t9'' (Some 2)]"
    by (simp add: sampleReply_def)
  have h2: "rawItem ''t9'' (Some 2) \<in> set [rawItem ''t1'' (Some 1), rawItem ''t9'' (Some 2)]"
    by simp
  have h3: "taskId_raw (rawItem ''t9'' (Some 2)) \<notin>
              Some ` set (map task_id (availableTasks sampleContext))"
    by (simp add: sample_defs)
  from unknown_task_rejects_plan [OF h1 h2 h3] h1 h2 h3 show ?thesis by blast
qed

lemma accepted_sample:
  "validateAndTransformResponse (sampleReply [rawItem ''t2'' n]) sampleContext =
     Inr \<lparr>tasks = [\<lparr>taskId = ''t2'', order = (if n = None \<or> n = Some 0 then 1 else the n),
                     recommendedStartTime = Some ''09:00'', recommendedEndTime = None,
                     aiAdvice = None\<rparr>],
          reasoning = ''ok''\<rparr>"
  by (cases n) (simp_all add: sample_defs validator_defs)

text \<open>
  Claim C4 as stated fails: a single item with the supplied order 5 is accepted with
  order 5, which is not the sequence \<open>1..1\<close>.
\<close>

theorem order_not_dense_counterexample:
  "\<exists>plan. validateAndTransformResponse (sampleReply [rawItem ''t2'' (Some 5)]) sampleContext
            = Inr plan \<and>
          map order (tasks plan) = [5] \<and>
          map order (tasks plan) \<noteq> [1..int (length (tasks plan))]"
  by (simp add: accepted_sample)

lemma four_items_accepted:
  "(case validateAndTransformResponse (sampleReply fourItems) sampleContext of
      Inr plan \<Rightarrow> map taskId (tasks plan) = [''t1'', ''t2'', ''t3'']
    | Inl _ \<Rightarrow> False)"
  by code_simp

theorem accepted_plan_invariants_witness:
  "\<exists>plan. validateAndTransformResponse (sampleReply fourItems) sampleContext = Inr plan \<and>
     map order_raw fourItems = [None, Some 0, Some 3, Some 9] \<and>
     dailyLimit (user sampleContext) = 3 \<and>
     map taskId (tasks plan) = [''t1'', ''t2'', ''t3''] \<and>
     int (length (tasks plan)) \<le> dailyLimit (user sampleContext) \<and>
     order (tasks plan ! 0) = 1 \<and> order (tasks plan ! 1) = 2 \<and> order (tasks plan ! 2) = 3 \<and>
     map order (tasks plan) = [1..int (length (tasks plan))] \<and>
     reasoning plan \<noteq> []"
proof -
  from four_items_accepted obtain plan where
    p: "validateAndTransformResponse (sampleReply fourItems) sampleContext = Inr plan" and
    t: "map taskId (tasks plan) = [''t1'', ''t2'', ''t3'']"
    by (auto split: sum.splits)
  from t have l: "length (tasks plan) = 3"
    using length_map [of taskId "tasks plan"] by simp
  have raw: "map order_raw fourItems = [None, Some 0, Some 3, Some 9]"
    by (simp add: fourItems_def rawItem_def)
  have d: "dailyLimit (user sampleContext) = 3" "0 \<le> dailyLimit (user sampleContext)"
    by (simp_all add: sampleContext_def)
  have r: "the (tasks_raw (sampleReply fourItems)) = fourItems"
    by (simp add: sampleReply_def)
  have o: "order_raw (fourItems ! 0) = None" "order_raw (fourItems ! 1) = Some 0"
    "order_raw (fourItems ! 2) = Some 3"
    by (simp_all add: fourItems_def rawItem_def)
  have dense: "\<forall>i < length (tasks plan).
     order_raw (the (tasks_raw (sampleReply fourItems)) ! i) \<in> {None, Some 0, Some (int i + 1)}"
    unfolding l r by (auto simp: less_Suc_eq numeral_3_eq_3 fourItems_def rawItem_def)
  from accepted_plan_invariants [OF p d(2)] dense l r o
  have "int (length (tasks plan)) \<le> dailyLimit (user sampleContext)"
    "order (tasks plan ! 0) = 1" "order (tasks plan ! 1) = 2" "order (tasks plan ! 2) = 3"
    "map order (tasks plan) = [1..int (length (tasks plan))]" "reasoning plan \<noteq> []"
    by (simp_all add: numeral_3_eq_3)
  with p raw d(1) t show ?thesis
    by - (rule exI [of _ plan], simp)
qed

section \<open>Properties of the balanced order and of the time blocks\<close>

lemma hasPair_snoc:
  "hasPair P (xs @ [x]) \<longleftrightarrow> hasPair P xs \<or> (xs \<noteq> [] \<and> P (last xs) \<and> P x)"
proof
  assume "hasPair P (xs @ [x])"
  then obtain i where i: "Suc i < Suc (length xs)" "P ((xs @ [x]) ! i)" "P ((xs @ [x]) ! Suc i)"
    by (auto simp: hasPair_def)
  show "hasPair P xs \<or> (xs \<noteq> [] \<and> P (last xs) \<and> P x)"
  proof (cases "Suc i < length xs")
    case True
    with i have "P (xs ! i)" "P (xs ! Suc i)" by (simp_all add: nth_append)
    with True show ?thesis by (auto simp: hasPair_def)
  next
    case False
    with i have e: "length xs = Suc i" by simp
    then have ne: "xs \<noteq> []" by auto
    then have "last xs = xs ! (length xs - 1)" by (rule last_conv_nth)
    with e have "last xs = xs ! i" by simp
    with i e ne show ?thesis by (auto simp: nth_append)
  qed
next
  assume "hasPair P xs \<or> (xs \<noteq> [] \<and> P (last xs) \<and> P x)"
  then show "hasPair P (xs @ [x])"
  proof
    assume "hasPair P xs"
    then obtain i where "Suc i < length xs" "P (xs ! i)" "P (xs ! Suc i)"
      by (auto simp: hasPair_def)
    then have "Suc i < length (xs @ [x]) \<and> P ((xs @ [x]) ! i) \<and> P ((xs @ [x]) ! Suc i)"
      by (simp add: nth_append)
    then show ?thesis unfolding hasPair_def by blast
  next
    assume a: "xs \<noteq> [] \<and> P (last xs) \<and> P x"
    then obtain i where i: "length xs = Suc i" by (cases xs) auto
    from a have "last xs = xs ! (length xs - 1)" by (simp add: last_conv_nth)
    with a i have "P (xs ! i)" by simp
    with a i have "Suc i < length (xs @ [x]) \<and> P ((xs @ [x]) ! i) \<and> P ((xs @ [x]) ! Suc i)"
      by (simp add: nth_append)
    then show ?thesis unfolding hasPair_def by blast
  qed
qed

lemma runsToEnd_snoc:
  assumes "runsToEnd P xs" and "hasPair P xs \<Longrightarrow> P x"
  shows "runsToEnd P (xs @ [x])"
  unfolding runsToEnd_def
proof (intro allI impI)
  fix i j
  assume a: "Suc i < length (xs @ [x]) \<and> P ((xs @ [x]) ! i) \<and> P ((xs @ [x]) ! Suc i) \<and>
             i < j \<and> j < length (xs @ [x])"
  show "P ((xs @ [x]) ! j)"
  proof (cases "j < length xs")
    case True
    with a have s: "Suc i < length xs" "i < length xs" "i < j" by simp_all
    with a have "P (xs ! i)" "P (xs ! Suc i)" by (simp_all add: nth_append)
    note s = s this
    with assms(1) True have "P (xs ! j)" unfolding runsToEnd_def using s by blast
    with True show ?thesis by (simp add: nth_append)
  next
    case False
    with a have j: "j = length xs" by simp
    show ?thesis
    proof (cases "Suc i < length xs")
      case True
      with a have "P (xs ! i)" "P (xs ! Suc i)" by (simp_all add: nth_append)
      with True have "hasPair P xs" by (auto simp: hasPair_def)
      with assms(2) j show ?thesis by simp
    next
      case False
      with a j have "Suc i = j" by simp
      with a show ?thesis by simp
    qed
  qed
qed

lemma hasPair_short [simp]: "\<not> hasPair P []" "\<not> hasPair P [x]"
  by (simp_all add: hasPair_def)

lemma runsToEnd_short [simp]: "runsToEnd P []" "runsToEnd P [x]"
  by (simp_all add: runsToEnd_def)

lemma kinds:
  "isEasy t \<Longrightarrow> \<not> isMedium t" "isEasy t \<Longrightarrow> \<not> isComplex t" "isMedium t \<Longrightarrow> \<not> isComplex t"
  "isEasy t \<Longrightarrow> complexity t \<notin> set [LARGE, VERY_LARGE, MEDIUM]"
  "isComplex t \<Longrightarrow> complexity t \<in> set [LARGE, VERY_LARGE, MEDIUM]"
  by (auto simp: isEasy_def isMedium_def isComplex_def)

lemma list_all_tl: "list_all P xs \<Longrightarrow> list_all P (tl xs)"
  by (cases xs) auto

lemma list_all_hd_tl: "list_all P xs \<Longrightarrow> xs \<noteq> [] \<Longrightarrow> P (hd xs) \<and> list_all P (tl xs)"
  by (cases xs) auto

lemma balanced_easy:
  assumes "balanced easy medium complex ordered" and "easy \<noteq> []"
    and "ordered \<noteq> [] \<and> isEasy (last ordered) \<Longrightarrow> medium = [] \<and> complex = []"
  shows "balanced (tl easy) medium complex (ordered @ [hd easy])"
proof -
  from assms(1,2) have x: "isEasy (hd easy)" "list_all isEasy (tl easy)"
    using list_all_hd_tl [of isEasy easy] by (simp_all add: balanced_def)
  have "runsToEnd isEasy (ordered @ [hd easy])"
    using assms(1) x by (intro runsToEnd_snoc) (simp_all add: balanced_def)
  moreover have "runsToEnd isComplex (ordered @ [hd easy])"
    using assms(1,2) by (intro runsToEnd_snoc) (simp_all add: balanced_def)
  ultimately show ?thesis
    using assms x kinds(2) [of "hd easy"] by (auto simp: balanced_def hasPair_snoc)
qed

lemma balanced_medium:
  assumes "balanced easy medium complex ordered" and "medium \<noteq> []"
  shows "balanced easy (tl medium) complex (ordered @ [hd medium])"
proof -
  from assms have x: "isMedium (hd medium)" "list_all isMedium (tl medium)"
    using list_all_hd_tl [of isMedium medium] by (simp_all add: balanced_def)
  have "runsToEnd isEasy (ordered @ [hd medium])"
    using assms by (intro runsToEnd_snoc) (simp_all add: balanced_def)
  moreover have "runsToEnd isComplex (ordered @ [hd medium])"
    using assms by (intro runsToEnd_snoc) (simp_all add: balanced_def)
  ultimately show ?thesis
    using assms x kinds(1,3) [of "hd medium"] by (auto simp: balanced_def hasPair_snoc)
qed

lemma balanced_complex:
  assumes "balanced easy medium complex ordered" and "complex \<noteq> []"
    and "ordered \<noteq> [] \<and> isComplex (last ordered) \<Longrightarrow> easy = [] \<and> medium = []"
  shows "balanced easy medium (tl complex) (ordered @ [hd complex])"
proof -
  from assms(1,2) have x: "isComplex (hd complex)" "list_all isComplex (tl complex)"
    using list_all_hd_tl [of isComplex complex] by (simp_all add: balanced_def)
  have "runsToEnd isComplex (ordered @ [hd complex])"
    using assms(1) x by (intro runsToEnd_snoc) (simp_all add: balanced_def)
  moreover have "runsToEnd isEasy (ordered @ [hd complex])"
    using assms(1,2) by (intro runsToEnd_snoc) (simp_all add: balanced_def)
  ultimately show ?thesis
    using assms x kinds(2) [of "hd complex"] by (auto simp: balanced_def hasPair_snoc)
qed

lemma alternate_done:
  "easy = [] \<Longrightarrow> medium = [] \<Longrightarrow> complex = [] \<Longrightarrow>
     alternate easy medium complex ordered = ordered"
  by (subst alternate.simps) simp

lemma alternate_heavy:
  assumes "ordered \<noteq> []" and "complexity (last ordered) \<in> set [LARGE, VERY_LARGE, MEDIUM]"
  shows "easy \<noteq> [] \<Longrightarrow> alternate easy medium complex ordered =
           alternate (tl easy) medium complex (ordered @ [hd easy])"
    and "easy = [] \<Longrightarrow> medium \<noteq> [] \<Longrightarrow> alternate easy medium complex ordered =
           alternate easy (tl medium) complex (ordered @ [hd medium])"
    and "easy = [] \<Longrightarrow> medium = [] \<Longrightarrow> complex \<noteq> [] \<Longrightarrow>
           alternate easy medium complex ordered =
           alternate easy medium (tl complex) (ordered @ [hd complex])"
  using assms by (subst alternate.simps, simp)+

lemma alternate_light:
  assumes "\<not> (ordered \<noteq> [] \<and> complexity (last ordered) \<in> set [LARGE, VERY_LARGE, MEDIUM])"
  shows "complex \<noteq> [] \<Longrightarrow> alternate easy medium complex ordered =
           alternate easy medium (tl complex) (ordered @ [hd complex])"
    and "complex = [] \<Longrightarrow> medium \<noteq> [] \<Longrightarrow> alternate easy medium complex ordered =
           alternate easy (tl medium) complex (ordered @ [hd medium])"
    and "complex = [] \<Longrightarrow> medium = [] \<Longrightarrow> easy \<noteq> [] \<Longrightarrow>
           alternate easy medium complex ordered =
           alternate (tl easy) medium complex (ordered @ [hd easy])"
  using assms by (subst alternate.simps, auto)+

lemma alternate_balanced:
  "balanced easy medium complex ordered \<Longrightarrow>
     runsToEnd isEasy (alternate easy medium complex ordered) \<and>
     runsToEnd isComplex (alternate easy medium complex ordered)"
proof (induction easy medium complex ordered rule: alternate.induct)
  case (1 easy medium complex ordered)
  note b = "1.prems"
  show ?case
  proof (cases "easy \<noteq> [] \<or> medium \<noteq> [] \<or> complex \<noteq> []")
    case False
    with b show ?thesis by (simp add: alternate_done balanced_def)
  next
    case some: True
    show ?thesis
    proof (cases "ordered \<noteq> [] \<and> complexity (last ordered) \<in> set [LARGE, VERY_LARGE, MEDIUM]")
      case heavy: True
      then have notEasy: "\<not> isEasy (last ordered)" using kinds(4) by blast
      note step = alternate_heavy [where ordered = ordered and easy = easy and medium = medium and complex = complex]
      show ?thesis
      proof (cases "easy \<noteq> []")
        case True
        from balanced_easy [OF b True] notEasy
        have "balanced (tl easy) medium complex (ordered @ [hd easy])" by blast
        from "1.IH"(1) [OF some heavy True this] show ?thesis
          using step(1) heavy True by simp
      next
        case e: False
        show ?thesis
        proof (cases "medium \<noteq> []")
          case True
          from "1.IH"(2) [OF some heavy e True balanced_medium [OF b True]] show ?thesis
            using step(2) heavy e True by simp
        next
          case m: False
          with some e have c: "complex \<noteq> []" by simp
          from balanced_complex [OF b c] e m
          have "balanced easy medium (tl complex) (ordered @ [hd complex])" by simp
          from "1.IH"(3) [OF some heavy e m this] show ?thesis
            using step(3) heavy e m c by simp
        qed
      qed
    next
      case light: False
      then have notComplex: "ordered \<noteq> [] \<Longrightarrow> \<not> isComplex (last ordered)"
        using kinds(5) by blast
      note step = alternate_light [OF light, where easy = easy and medium = medium and complex = complex]
      show ?thesis
      proof (cases "complex \<noteq> []")
        case True
        from balanced_complex [OF b True] notComplex
        have "balanced easy medium (tl complex) (ordered @ [hd complex])" by blast
        from "1.IH"(4) [OF some light True this] show ?thesis
          using step(1) True by simp
      next
        case c: False
        show ?thesis
        proof (cases "medium \<noteq> []")
          case True
          from "1.IH"(5) [OF some light c True balanced_medium [OF b True]] show ?thesis
            using step(2) c True by simp
        next
          case m: False
          with some c have e: "easy \<noteq> []" by simp
          from balanced_easy [OF b e] c m
          have "balanced (tl easy) medium complex (ordered @ [hd easy])" by simp
          from "1.IH"(6) [OF some light c m this] show ?thesis
            using step(3) c m e by simp
        qed
      qed
    qed
  qed
qed

lemma balancedOrder_runs:
  "runsToEnd isEasy (balancedOrder selected) \<and> runsToEnd isComplex (balancedOrder selected)"
proof -
  let ?e = "filter isEasy selected" and ?m = "filter isMedium selected"
    and ?c = "filter isComplex selected"
  have groups: "list_all isEasy ?e" "list_all isMedium ?m" "list_all isComplex ?c"
    by (simp_all add: list_all_iff)
  have tls: "list_all isEasy (tl ?e)" "list_all isMedium (tl ?m)" "list_all isComplex (tl ?c)"
    using groups by (simp_all add: list_all_tl)
  have b: "balanced ?e (tl ?m) ?c [hd ?m]" "balanced (tl ?e) ?m ?c [hd ?e]"
    "balanced ?e ?m (tl ?c) [hd ?c]" "balanced ?e ?m ?c []"
    using groups tls by (simp_all add: balanced_def)
  consider "?m \<noteq> []" | "?m = []" "?e \<noteq> []" | "?m = []" "?e = []" "?c \<noteq> []"
    | "?m = []" "?e = []" "?c = []"
    by blast
  then show ?thesis
  proof cases
    case 1
    then have "balancedOrder selected = alternate ?e (tl ?m) ?c [hd ?m]"
      unfolding balancedOrder_def Let_def by (rule if_P)
    with alternate_balanced [OF b(1)] show ?thesis by simp
  next
    case 2
    then have "balancedOrder selected = alternate (tl ?e) ?m ?c [hd ?e]"
      unfolding balancedOrder_def Let_def by simp
    with alternate_balanced [OF b(2)] show ?thesis by simp
  next
    case 3
    then have "balancedOrder selected = alternate ?e ?m (tl ?c) [hd ?c]"
      unfolding balancedOrder_def Let_def by simp
    with alternate_balanced [OF b(3)] show ?thesis by simp
  next
    case 4
    then have "balancedOrder selected = alternate ?e ?m ?c []"
      unfolding balancedOrder_def Let_def by simp
    with alternate_balanced [OF b(4)] show ?thesis by simp
  qed
qed


lemma digitChar_props:
  assumes "d < 10"
  shows "isDigit (digitChar d)" and "digitValue (digitChar d) = d"
proof -
  from assms have "d \<in> {0, 1, 2, 3, 4, 5, 6, 7, 8, 9}" by auto
  then show "isDigit (digitChar d)" and "digitValue (digitChar d) = d"
    by (auto simp: digitChar_def isDigit_def digitValue_def)
qed

lemma isDigit_not_colon: "isDigit c \<Longrightarrow> c \<noteq> CHR '':''"
  by (auto simp: isDigit_def)

lemma toStringNat_digits: "toStringNat n \<noteq> [] \<and> list_all isDigit (toStringNat n)"
proof (induction n rule: toStringNat.induct)
  case (1 n)
  show ?case
  proof (cases "n < 10")
    case True
    then show ?thesis by (subst (1 2) toStringNat.simps) (simp add: digitChar_props)
  next
    case False
    with 1 have "list_all isDigit (toStringNat (n div 10))" by simp
    moreover have "isDigit (digitChar (n mod 10))" by (simp add: digitChar_props)
    ultimately show ?thesis using False by (subst (1 2) toStringNat.simps) simp
  qed
qed

lemma toStringNat_value: "foldl (\<lambda>n c. 10 * n + digitValue c) 0 (toStringNat n) = n"
proof (induction n rule: toStringNat.induct)
  case (1 n)
  show ?case
  proof (cases "n < 10")
    case True
    then show ?thesis by (subst toStringNat.simps) (simp add: digitChar_props)
  next
    case False
    with 1 have "foldl (\<lambda>n c. 10 * n + digitValue c) 0 (toStringNat (n div 10)) = n div 10"
      by simp
    then show ?thesis using False
      by (subst toStringNat.simps) (simp add: digitChar_props)
  qed
qed

lemma zeros_value: "foldl (\<lambda>n c. 10 * n + digitValue c) 0 (replicate k (CHR ''0'')) = 0"
  by (induction k) (simp_all add: digitValue_def)

lemma parseNat_padStart2: "parseNat (padStart2 (toStringNat n)) = Some n"
proof -
  have "isDigit (CHR ''0'')" by (simp add: isDigit_def)
  then have "list_all isDigit (replicate (2 - length (toStringNat n)) (CHR ''0''))"
    by (simp add: list_all_iff)
  with toStringNat_digits [of n] show ?thesis
    by (simp add: parseNat_def padStart2_def zeros_value toStringNat_value)
qed

lemma padStart2_digits: "list_all isDigit (padStart2 (toStringNat n))"
proof -
  have "isDigit (CHR ''0'')" by (simp add: isDigit_def)
  then have "list_all isDigit (replicate (2 - length (toStringNat n)) (CHR ''0''))"
    by (simp add: list_all_iff)
  with toStringNat_digits [of n] show ?thesis by (simp add: padStart2_def)
qed

lemma minutesOfTime_formatTime: "minutesOfTime (formatTime h m) = Some (60 * h + m)"
proof -
  let ?hh = "padStart2 (toStringNat h)" and ?mm = "padStart2 (toStringNat m)"
  have nc: "\<forall>c \<in> set ?hh. c \<noteq> CHR '':''"
    using padStart2_digits [of h] by (auto simp: list_all_iff dest: isDigit_not_colon)
  have "takeWhile (\<lambda>c. c \<noteq> CHR '':'') (?hh @ CHR '':'' # ?mm) = ?hh"
    using nc by (simp add: takeWhile_append2)
  moreover have "dropWhile (\<lambda>c. c \<noteq> CHR '':'') (?hh @ CHR '':'' # ?mm) = CHR '':'' # ?mm"
    using nc by (simp add: dropWhile_append2)
  ultimately show ?thesis
    by (simp add: minutesOfTime_def formatTime_def parseNat_padStart2)
qed

lemma currentMinutes_Suc:
  "i < length ordered \<Longrightarrow>
     currentMinutes ordered (Suc i) =
       currentMinutes ordered i + complexityDuration (complexity (ordered ! i))"
  by (simp add: currentMinutes_def take_Suc_conv_app_nth)

lemma fallbackTasks_nth:
  "i < length ordered \<Longrightarrow> fallbackTasks ordered ! i = planTask ordered i"
  by (simp add: fallbackTasks_def)

lemma length_fallbackTasks [simp]: "length (fallbackTasks ordered) = length ordered"
  by (simp add: fallbackTasks_def)

lemma formatTime_nine: "formatTime 9 0 = ''09:00''"
  by (simp add: formatTime_def padStart2_def toStringNat.simps digitChar_def)

lemma fallbackTasks_times:
  "(ordered \<noteq> [] \<longrightarrow> recommendedStartTime (fallbackTasks ordered ! 0) = Some ''09:00'') \<and>
   (\<forall>i. Suc i < length ordered \<longrightarrow>
      recommendedEndTime (fallbackTasks ordered ! i) =
      recommendedStartTime (fallbackTasks ordered ! Suc i)) \<and>
   (\<forall>i < length ordered.
      taskId (fallbackTasks ordered ! i) = task_id (ordered ! i) \<and>
      blockMinutes (fallbackTasks ordered ! i) =
        Some (complexityDuration (complexity (ordered ! i))))"
proof (intro conjI allI impI)
  assume "ordered \<noteq> []"
  then have "0 < length ordered" by simp
  then show "recommendedStartTime (fallbackTasks ordered ! 0) = Some ''09:00''"
    by (simp add: fallbackTasks_nth planTask_def Let_def currentMinutes_def startHour_def
          formatTime_nine)
next
  fix i assume i: "Suc i < length ordered"
  then have "i < length ordered" by simp
  with i show "recommendedEndTime (fallbackTasks ordered ! i) =
      recommendedStartTime (fallbackTasks ordered ! Suc i)"
    by (simp add: fallbackTasks_nth planTask_def Let_def currentMinutes_Suc)
next
  fix i assume i: "i < length ordered"
  then show "taskId (fallbackTasks ordered ! i) = task_id (ordered ! i)"
    by (simp add: fallbackTasks_nth planTask_def Let_def)
next
  fix i assume i: "i < length ordered"
  let ?m = "currentMinutes ordered i" and ?d = "complexityDuration (complexity (ordered ! i))"
  have "60 * (startHour + ?m div 60) + ?m mod 60 = 60 * startHour + ?m"
    by simp
  moreover have "60 * (startHour + (?m + ?d) div 60) + (?m + ?d) mod 60 = 60 * startHour + ?m + ?d"
    by simp
  ultimately show "blockMinutes (fallbackTasks ordered ! i) = Some ?d"
    using i by (simp add: fallbackTasks_nth planTask_def Let_def blockMinutes_def
                  minutesOfTime_formatTime)
qed

section \<open>Properties of the fallback planner, the orchestration and the context builder\<close>

lemma generateFallbackPlan_cases:
  "(buildPromptContext prisma now userId targetDate = Inr context \<longrightarrow>
      generateFallbackPlan prisma now userId targetDate = Inr (heuristicPlan context)) \<and>
   (buildPromptContext prisma now userId targetDate = Inl e \<longrightarrow>
      generateFallbackPlan prisma now userId targetDate = Inr minimalPlan)"
  by (simp add: generateFallbackPlan_def fallbackAttempt_def)

lemma generateFallbackPlan_Inr:
  assumes "generateFallbackPlan prisma now userId targetDate = Inr plan"
  shows "(\<exists>context. buildPromptContext prisma now userId targetDate = Inr context \<and>
            plan = heuristicPlan context) \<or>
         ((\<exists>e. buildPromptContext prisma now userId targetDate = Inl e) \<and> plan = minimalPlan)"
  using assms
  by (cases "buildPromptContext prisma now userId targetDate")
     (auto simp: generateFallbackPlan_def fallbackAttempt_def)

lemma tasks_heuristicPlan [simp]:
  "tasks (heuristicPlan context) = fallbackTasks (orderedTasks context)"
  by (simp add: heuristicPlan_def Let_def)

lemma map_taskId_fallbackTasks: "map taskId (fallbackTasks ordered) = map task_id ordered"
  by (rule nth_equalityI) (simp_all add: fallbackTasks_nth planTask_def Let_def)

text \<open>
  Claim C2, as amended. In every fallback plan the items follow \<open>orderedTasks\<close>, and two
  neighbouring items are both easy only where every later item is easy too, and both
  complex only where every later item is complex too: such neighbours appear when the
  other groups have run out, never before.
\<close>

theorem same_bucket_neighbours_only_at_the_end:
  assumes "buildPromptContext prisma now userId targetDate = Inr context"
    and "Suc i < length (orderedTasks context)" and "i < j"
    and "j < length (orderedTasks context)"
  shows "\<exists>plan. generateFallbackPlan prisma now userId targetDate = Inr plan \<and>
           map taskId (tasks plan) = map task_id (orderedTasks context) \<and>
           (isEasy (orderedTasks context ! i) \<and> isEasy (orderedTasks context ! Suc i)
              \<longrightarrow> isEasy (orderedTasks context ! j)) \<and>
           (isComplex (orderedTasks context ! i) \<and> isComplex (orderedTasks context ! Suc i)
              \<longrightarrow> isComplex (orderedTasks context ! j))"
proof -
  have plan: "generateFallbackPlan prisma now userId targetDate = Inr (heuristicPlan context)"
    using assms(1) generateFallbackPlan_cases by blast
  have runs: "runsToEnd isEasy (orderedTasks context)" "runsToEnd isComplex (orderedTasks context)"
    using balancedOrder_runs [of "selectedTasks context"] by (simp_all add: orderedTasks_def)
  have "isEasy (orderedTasks context ! j)"
    if "isEasy (orderedTasks context ! i) \<and> isEasy (orderedTasks context ! Suc i)"
    using runs(1) that assms(2-4) unfolding runsToEnd_def by blast
  moreover have "isComplex (orderedTasks context ! j)"
    if "isComplex (orderedTasks context ! i) \<and> isComplex (orderedTasks context ! Suc i)"
    using runs(2) that assms(2-4) unfolding runsToEnd_def by blast
  ultimately show ?thesis
    using plan by (auto simp: map_taskId_fallbackTasks)
qed

text \<open>
  Claim C7. In every plan of the fallback planner the first item starts at \<open>09:00\<close>, each
  item ends where the next one starts, and the minutes between an item's start and its end
  are those of the complexity of its task: 15 for \<^verbatim>\<open>VERY_SMALL\<close>, 30 for
  \<^verbatim>\<open>SMALL\<close>, 60 for \<^verbatim>\<open>MEDIUM\<close>, 90 for \<^verbatim>\<open>LARGE\<close> and 120 for
  \<^verbatim>\<open>VERY_LARGE\<close>.
\<close>

theorem fallback_time_blocks:
  assumes "generateFallbackPlan prisma now userId targetDate = Inr plan"
  shows "(tasks plan \<noteq> [] \<longrightarrow> recommendedStartTime (tasks plan ! 0) = Some ''09:00'') \<and>
         (\<forall>i. Suc i < length (tasks plan) \<longrightarrow>
            recommendedEndTime (tasks plan ! i) = recommendedStartTime (tasks plan ! Suc i)) \<and>
         (\<forall>context. buildPromptContext prisma now userId targetDate = Inr context \<longrightarrow>
            length (tasks plan) = length (orderedTasks context) \<and>
            (\<forall>i < length (tasks plan).
               taskId (tasks plan ! i) = task_id (orderedTasks context ! i) \<and>
               blockMinutes (tasks plan ! i) =
                 Some (case complexity (orderedTasks context ! i) of
                         VERY_SMALL \<Rightarrow> 15 | SMALL \<Rightarrow> 30 | MEDIUM \<Rightarrow> 60
                       | LARGE \<Rightarrow> 90 | VERY_LARGE \<Rightarrow> 120)))"
proof -
  have table: "complexityDuration c =
      (case c of VERY_SMALL \<Rightarrow> 15 | SMALL \<Rightarrow> 30 | MEDIUM \<Rightarrow> 60
       | LARGE \<Rightarrow> 90 | VERY_LARGE \<Rightarrow> 120)" for c
    by (cases c) simp_all
  from generateFallbackPlan_Inr [OF assms] show ?thesis
  proof
    assume "\<exists>context. buildPromptContext prisma now userId targetDate = Inr context \<and>
              plan = heuristicPlan context"
    then obtain c where c: "buildPromptContext prisma now userId targetDate = Inr c"
      and p: "tasks plan = fallbackTasks (orderedTasks c)" by auto
    have ne: "fallbackTasks (orderedTasks c) \<noteq> [] \<longleftrightarrow> orderedTasks c \<noteq> []"
      using length_fallbackTasks [of "orderedTasks c"] by (metis length_0_conv)
    from fallbackTasks_times [of "orderedTasks c"] show ?thesis
      unfolding p using c ne by (simp add: table)
  next
    assume "(\<exists>e. buildPromptContext prisma now userId targetDate = Inl e) \<and> plan = minimalPlan"
    then show ?thesis by (auto simp: minimalPlan_def)
  qed
qed

lemma sortBy_Nil [simp]: "sortBy comparefn [] = []"
  by (simp add: sortBy_def countAndMakeRun_def)

lemma slice0_Nil [simp]: "slice0 n [] = []"
  by (simp add: slice0_def)

lemma balancedOrder_Nil [simp]: "balancedOrder [] = []"
  by (simp add: balancedOrder_def alternate_done)

lemma fallbackTasks_Nil [simp]: "fallbackTasks [] = []"
  by (simp add: fallbackTasks_def)

lemma concat_map_Nil: "concat (map (\<lambda>p. []) xs) = []"
  by (induction xs) simp_all

lemma fallbackReasoning_not_empty: "fallbackReasoning n k \<noteq> []"
  by (simp add: fallbackReasoning_def)

text \<open>
  Claim C9. For a context without available tasks the heuristic plan has no items and a
  reasoning that is not empty; and \<^verbatim>\<open>generateFallbackPlan\<close> never rejects: on every
  database, clock, user and date it resolves to a plan with a reasoning that is not
  empty, the heuristic plan of the context whenever the context can be built.
\<close>

theorem empty_pool_gives_empty_plan:
  "(availableTasks context = [] \<longrightarrow> tasks (heuristicPlan context) = []) \<and>
   reasoning (heuristicPlan context) \<noteq> [] \<and>
   (\<exists>plan. generateFallbackPlan prisma now userId targetDate = Inr plan \<and>
      reasoning plan \<noteq> [] \<and>
      (\<forall>c. buildPromptContext prisma now userId targetDate = Inr c \<longrightarrow> plan = heuristicPlan c))"
proof -
  have empty: "tasks (heuristicPlan context) = []" if "availableTasks context = []"
  proof -
    from that show ?thesis by (simp add: selectedTasks_def orderedTasks_def concat_map_Nil)
  qed
  have r: "reasoning (heuristicPlan c) \<noteq> []" for c
    by (simp add: heuristicPlan_def Let_def fallbackReasoning_not_empty)
  have "\<exists>plan. generateFallbackPlan prisma now userId targetDate = Inr plan \<and>
      reasoning plan \<noteq> [] \<and>
      (\<forall>c. buildPromptContext prisma now userId targetDate = Inr c \<longrightarrow> plan = heuristicPlan c)"
  proof (cases "buildPromptContext prisma now userId targetDate")
    case (Inl e)
    then show ?thesis
      by (simp add: generateFallbackPlan_def fallbackAttempt_def minimalPlan_def)
  next
    case (Inr c)
    then show ?thesis
      using r [of c] by (simp add: generateFallbackPlan_def fallbackAttempt_def)
  qed
  with empty r show ?thesis by blast
qed

text \<open>
  Claim C10. When the fallback planner's own fetch of the context fails, the failure is
  caught and the planner resolves to the plan that has no items and the fixed apology
  as its reasoning.
  Hence a request whose first attempt ended in \<^verbatim>\<open>SERVICE_UNAVAILABLE\<close> always
  resolves to a plan, whatever happens to the second fetch.
\<close>

theorem fallback_catches_its_own_failures:
  "(buildPromptContext prisma' now' userId targetDate = Inl e \<longrightarrow>
      generateFallbackPlan prisma' now' userId targetDate =
        Inr \<lparr>tasks = [], reasoning = 
          ''Unable to generate plan due to technical difficulties. Please try again later.''\<rparr>) \<and>
   (aiAttempt prisma now completion userId targetDate = Inl error \<and>
    code error = Some SERVICE_UNAVAILABLE \<longrightarrow>
      (\<exists>plan. generateDailyPlan prisma now completion prisma' now' userId targetDate = Inr plan \<and>
         ((\<exists>e'. buildPromptContext prisma' now' userId targetDate = Inl e') \<longrightarrow>
            tasks plan = [] \<and> reasoning plan = 
          ''Unable to generate plan due to technical difficulties. Please try again later.'')))"
proof (intro conjI impI)
  assume "buildPromptContext prisma' now' userId targetDate = Inl e"
  then show "generateFallbackPlan prisma' now' userId targetDate =
        Inr \<lparr>tasks = [], reasoning = 
          ''Unable to generate plan due to technical difficulties. Please try again later.''\<rparr>"
    by (simp add: generateFallbackPlan_def fallbackAttempt_def minimalPlan_def)
next
  assume a: "aiAttempt prisma now completion userId targetDate = Inl error \<and>
    code error = Some SERVICE_UNAVAILABLE"
  then have g: "generateDailyPlan prisma now completion prisma' now' userId targetDate =
    generateFallbackPlan prisma' now' userId targetDate"
    by (simp add: generateDailyPlan_def)
  show "\<exists>plan. generateDailyPlan prisma now completion prisma' now' userId targetDate = Inr plan \<and>
         ((\<exists>e'. buildPromptContext prisma' now' userId targetDate = Inl e') \<longrightarrow>
            tasks plan = [] \<and> reasoning plan = 
          ''Unable to generate plan due to technical difficulties. Please try again later.'')"
    unfolding g
    by (cases "buildPromptContext prisma' now' userId targetDate")
       (simp_all add: generateFallbackPlan_def fallbackAttempt_def minimalPlan_def)
qed

lemma generateFallbackPlan_never_rejects:
  "generateFallbackPlan prisma now userId targetDate \<noteq> Inl e"
  by (simp add: generateFallbackPlan_def split: sum.splits)

lemma code_createAIError [simp]: "code (createAIError msg c) = Some c"
  by (simp add: createAIError_def)

text \<open>
  Claim C1, as amended. When the call to the generative service rejects, the fallback
  planner runs if and only if the classified error has the code
  \<^verbatim>\<open>SERVICE_UNAVAILABLE\<close>; otherwise the classified error reaches the caller. Status
  429 and every status from 500 on are classified \<^verbatim>\<open>SERVICE_UNAVAILABLE\<close>; so is
  every other failure that carries no code, while one that carries a code is passed on as
  it is. \<^verbatim>\<open>INTERNAL_SERVER_ERROR\<close> is the code of the adapter's own errors (no
  content, content that does not parse, a plan the validator rejects), which reach the
  caller without the fallback.
\<close>

theorem fallback_iff_service_unavailable:
  assumes "buildPromptContext prisma now userId targetDate = Inr context"
  shows "generateDailyPlan prisma now (Rejects failure) prisma' now' userId targetDate =
           (if code (classify failure) = Some SERVICE_UNAVAILABLE
            then generateFallbackPlan prisma' now' userId targetDate
            else Inl (classify failure)) \<and>
         ((\<exists>e. generateDailyPlan prisma now (Rejects failure) prisma' now' userId targetDate = Inl e)
            \<longleftrightarrow> code (classify failure) \<noteq> Some SERVICE_UNAVAILABLE) \<and>
         (status failure = Some 429 \<longrightarrow> code (classify failure) = Some SERVICE_UNAVAILABLE) \<and>
         (\<forall>s. status failure = Some s \<and> 500 \<le> s \<longrightarrow>
            code (classify failure) = Some SERVICE_UNAVAILABLE) \<and>
         (status failure \<noteq> Some 429 \<and> (\<forall>s. status failure = Some s \<longrightarrow> s < 500) \<longrightarrow>
            (if truthyString (code failure) then classify failure = failure
             else code (classify failure) = Some SERVICE_UNAVAILABLE)) \<and>
         (\<forall>completion e. requestPlan completion context = Inl e \<and>
            (\<forall>f. completion \<noteq> Rejects f) \<longrightarrow>
            code e = Some INTERNAL_SERVER_ERROR \<and>
            generateDailyPlan prisma now completion prisma' now' userId targetDate = Inl e)"
proof -
  have run: "generateDailyPlan prisma now (Rejects failure) prisma' now' userId targetDate =
           (if code (classify failure) = Some SERVICE_UNAVAILABLE
            then generateFallbackPlan prisma' now' userId targetDate
            else Inl (classify failure))"
    using assms
    by (simp add: generateDailyPlan_def aiAttempt_def callOpenAI_def requestPlan_def)
  have iff: "(\<exists>e. generateDailyPlan prisma now (Rejects failure) prisma' now' userId targetDate = Inl e)
            \<longleftrightarrow> code (classify failure) \<noteq> Some SERVICE_UNAVAILABLE"
    unfolding run by (simp add: generateFallbackPlan_never_rejects)
  have c429: "status failure = Some 429 \<longrightarrow> code (classify failure) = Some SERVICE_UNAVAILABLE"
    by (simp add: classify_def)
  have c500: "\<forall>s. status failure = Some s \<and> 500 \<le> s \<longrightarrow>
            code (classify failure) = Some SERVICE_UNAVAILABLE"
    by (simp add: classify_def)
  have other: "status failure \<noteq> Some 429 \<and> (\<forall>s. status failure = Some s \<longrightarrow> s < 500) \<longrightarrow>
            (if truthyString (code failure) then classify failure = failure
             else code (classify failure) = Some SERVICE_UNAVAILABLE)"
    by (cases "status failure") (auto simp: classify_def)
  have own: "code e = Some INTERNAL_SERVER_ERROR \<and>
            generateDailyPlan prisma now completion prisma' now' userId targetDate = Inl e"
    if "requestPlan completion context = Inl e \<and> (\<forall>f. completion \<noteq> Rejects f)"
    for completion e
  proof -
    from that have c: "code e = Some INTERNAL_SERVER_ERROR" and s: "status e = None"
      by (cases completion;
          auto simp: requestPlan_def parseFailure_def createAIError_def split: sum.splits)+
    then have "classify e = e"
      by (simp add: classify_def truthyString_def INTERNAL_SERVER_ERROR_def)
    with that c assms show ?thesis
      by (simp add: generateDailyPlan_def aiAttempt_def callOpenAI_def
            INTERNAL_SERVER_ERROR_def SERVICE_UNAVAILABLE_def)
  qed
  from run iff c429 c500 other own show ?thesis by blast
qed


section \<open>The properties at the sample data\<close>

lemma large_context:
  "(case buildPromptContext largeDatabase noon20 ''u1'' midnight20 of
      Inr c \<Rightarrow> map task_id (orderedTasks c) = [''t1'', ''t2'', ''t3''] \<and>
               map complexity (orderedTasks c) = [LARGE, LARGE, LARGE]
    | Inl _ \<Rightarrow> False)"
  by code_simp

lemma large_plan:
  "(case generateFallbackPlan largeDatabase noon20 ''u1'' midnight20 of
      Inr plan \<Rightarrow> map taskId (tasks plan) = [''t1'', ''t2'', ''t3'']
    | Inl _ \<Rightarrow> False)"
  by code_simp

text \<open>
  Claim C2 as stated fails: for a project with three \<^verbatim>\<open>LARGE\<close> tasks the plan has
  the three items in a row, all of them complex.
\<close>

theorem adjacent_complex_items_counterexample:
  "\<exists>c plan. buildPromptContext largeDatabase noon20 ''u1'' midnight20 = Inr c \<and>
     generateFallbackPlan largeDatabase noon20 ''u1'' midnight20 = Inr plan \<and>
     map taskId (tasks plan) = [''t1'', ''t2'', ''t3''] \<and>
     map task_id (orderedTasks c) = [''t1'', ''t2'', ''t3''] \<and>
     isComplex (orderedTasks c ! 0) \<and> isComplex (orderedTasks c ! 1)"
proof -
  from large_context obtain c where
    c: "buildPromptContext largeDatabase noon20 ''u1'' midnight20 = Inr c" and
    ids: "map task_id (orderedTasks c) = [''t1'', ''t2'', ''t3'']" and
    cs: "map complexity (orderedTasks c) = [LARGE, LARGE, LARGE]"
    by (auto split: sum.splits)
  from large_plan obtain plan where
    p: "generateFallbackPlan largeDatabase noon20 ''u1'' midnight20 = Inr plan" and
    t: "map taskId (tasks plan) = [''t1'', ''t2'', ''t3'']"
    by (auto split: sum.splits)
  from cs have l: "length (orderedTasks c) = 3"
    using length_map [of complexity "orderedTasks c"] by simp
  have "complexity (orderedTasks c ! k) = LARGE" if "k < 3" for k
  proof -
    from that l have "complexity (orderedTasks c ! k) = map complexity (orderedTasks c) ! k"
      by simp
    also from that have "\<dots> = LARGE" unfolding cs by (auto simp: less_Suc_eq numeral_3_eq_3)
    finally show ?thesis .
  qed
  then have "isComplex (orderedTasks c ! 0)" "isComplex (orderedTasks c ! 1)"
    by (simp_all add: isComplex_def)
  with c p t ids show ?thesis
    by - (rule exI [of _ c], rule exI [of _ plan], simp)
qed

theorem same_bucket_neighbours_only_at_the_end_witness:
  "\<exists>c plan. buildPromptContext largeDatabase noon20 ''u1'' midnight20 = Inr c \<and>
     Suc 0 < length (orderedTasks c) \<and> (0::nat) < 2 \<and> 2 < length (orderedTasks c) \<and>
     generateFallbackPlan largeDatabase noon20 ''u1'' midnight20 = Inr plan \<and>
     map taskId (tasks plan) = map task_id (orderedTasks c) \<and>
     isComplex (orderedTasks c ! 0) \<and> isComplex (orderedTasks c ! Suc 0) \<and>
     isComplex (orderedTasks c ! 2)"
proof -
  from large_context obtain c where
    c: "buildPromptContext largeDatabase noon20 ''u1'' midnight20 = Inr c" and
    cs: "map complexity (orderedTasks c) = [LARGE, LARGE, LARGE]"
    by (auto split: sum.splits)
  from cs have l: "length (orderedTasks c) = 3"
    using length_map [of complexity "orderedTasks c"] by simp
  then have h: "Suc 0 < length (orderedTasks c)" "(0::nat) < 2" "2 < length (orderedTasks c)"
    by simp_all
  have "complexity (orderedTasks c ! k) = LARGE" if "k < 3" for k
  proof -
    from that l have "complexity (orderedTasks c ! k) = map complexity (orderedTasks c) ! k"
      by simp
    also from that have "\<dots> = LARGE" unfolding cs by (auto simp: less_Suc_eq numeral_3_eq_3)
    finally show ?thesis .
  qed
  then have k: "isComplex (orderedTasks c ! 0)" "isComplex (orderedTasks c ! Suc 0)"
    by (simp_all add: isComplex_def)
  from same_bucket_neighbours_only_at_the_end [OF c h] k obtain plan where
    "generateFallbackPlan largeDatabase noon20 ''u1'' midnight20 = Inr plan"
    "map taskId (tasks plan) = map task_id (orderedTasks c)"
    "isComplex (orderedTasks c ! 2)"
    by blast
  with c h k show ?thesis
    by - (rule exI [of _ c], rule exI [of _ plan], simp)
qed

lemma scenario_plan:
  "(case generateFallbackPlan scenarioDatabase noon20 ''u1'' midnight20 of
      Inr plan \<Rightarrow>
        map taskId (tasks plan) = [''t1'', ''t2'', ''t3''] \<and>
        map recommendedStartTime (tasks plan) = [Some ''09:00'', Some ''10:00'', Some ''10:30''] \<and>
        map recommendedEndTime (tasks plan) = [Some ''10:00'', Some ''10:30'', Some ''12:00''] \<and>
        map blockMinutes (tasks plan) = [Some 60, Some 30, Some 90]
    | Inl _ \<Rightarrow> False)"
  by code_simp

lemma five_context:
  "(case buildPromptContext fiveDatabase noon20 ''u1'' midnight20 of
      Inr c \<Rightarrow> map complexity (orderedTasks c) = [MEDIUM, SMALL, LARGE, VERY_SMALL, VERY_LARGE]
    | Inl _ \<Rightarrow> False)"
  by code_simp

lemma five_plan:
  "(case generateFallbackPlan fiveDatabase noon20 ''u1'' midnight20 of
      Inr plan \<Rightarrow>
        map taskId (tasks plan) = [''t5'', ''t4'', ''t3'', ''t2'', ''t1''] \<and>
        map recommendedStartTime (tasks plan) =
          [Some ''09:00'', Some ''10:00'', Some ''10:30'', Some ''12:00'', Some ''12:15''] \<and>
        map recommendedEndTime (tasks plan) =
          [Some ''10:00'', Some ''10:30'', Some ''12:00'', Some ''12:15'', Some ''14:15'']
    | Inl _ \<Rightarrow> False)"
  by code_simp

theorem fallback_time_blocks_witness:
  "\<exists>c plan. buildPromptContext fiveDatabase noon20 ''u1'' midnight20 = Inr c \<and>
     generateFallbackPlan fiveDatabase noon20 ''u1'' midnight20 = Inr plan \<and>
     map complexity (orderedTasks c) = [MEDIUM, SMALL, LARGE, VERY_SMALL, VERY_LARGE] \<and>
     map taskId (tasks plan) = [''t5'', ''t4'', ''t3'', ''t2'', ''t1''] \<and>
     map recommendedStartTime (tasks plan) =
       [Some ''09:00'', Some ''10:00'', Some ''10:30'', Some ''12:00'', Some ''12:15''] \<and>
     map recommendedEndTime (tasks plan) =
       [Some ''10:00'', Some ''10:30'', Some ''12:00'', Some ''12:15'', Some ''14:15''] \<and>
     recommendedStartTime (tasks plan ! 0) = Some ''09:00'' \<and>
     recommendedEndTime (tasks plan ! 0) = recommendedStartTime (tasks plan ! 1) \<and>
     recommendedEndTime (tasks plan ! 3) = recommendedStartTime (tasks plan ! 4) \<and>
     blockMinutes (tasks plan ! 0) = Some 60 \<and> blockMinutes (tasks plan ! 1) = Some 30 \<and>
     blockMinutes (tasks plan ! 2) = Some 90 \<and> blockMinutes (tasks plan ! 3) = Some 15 \<and>
     blockMinutes (tasks plan ! 4) = Some 120"
proof -
  from five_context obtain c where
    c: "buildPromptContext fiveDatabase noon20 ''u1'' midnight20 = Inr c" and
    cs: "map complexity (orderedTasks c) = [MEDIUM, SMALL, LARGE, VERY_SMALL, VERY_LARGE]"
    by (auto split: sum.splits)
  from five_plan obtain plan where
    p: "generateFallbackPlan fiveDatabase noon20 ''u1'' midnight20 = Inr plan" and
    t: "map taskId (tasks plan) = [''t5'', ''t4'', ''t3'', ''t2'', ''t1'']" and
    s: "map recommendedStartTime (tasks plan) =
          [Some ''09:00'', Some ''10:00'', Some ''10:30'', Some ''12:00'', Some ''12:15'']" and
    e: "map recommendedEndTime (tasks plan) =
          [Some ''10:00'', Some ''10:30'', Some ''12:00'', Some ''12:15'', Some ''14:15'']"
    by (auto split: sum.splits)
  from t have l: "length (tasks plan) = 5"
    using length_map [of taskId "tasks plan"] by simp
  from cs have lc: "length (orderedTasks c) = 5"
    using length_map [of complexity "orderedTasks c"] by simp
  have cx: "complexity (orderedTasks c ! k) = [MEDIUM, SMALL, LARGE, VERY_SMALL, VERY_LARGE] ! k"
    if "k < 5" for k
    using that lc nth_map [of k "orderedTasks c" complexity] by (simp add: cs)
  note inst = fallback_time_blocks [OF p]
  from inst l have first: "recommendedStartTime (tasks plan ! 0) = Some ''09:00''"
    by auto
  from inst l have next01: "recommendedEndTime (tasks plan ! 0) = recommendedStartTime (tasks plan ! Suc 0)"
    and next34: "recommendedEndTime (tasks plan ! 3) = recommendedStartTime (tasks plan ! Suc 3)"
    by simp_all
  from inst c l have blocks: "blockMinutes (tasks plan ! k) =
      Some (case complexity (orderedTasks c ! k) of
              VERY_SMALL \<Rightarrow> 15 | SMALL \<Rightarrow> 30 | MEDIUM \<Rightarrow> 60 | LARGE \<Rightarrow> 90 | VERY_LARGE \<Rightarrow> 120)"
    if "k < 5" for k
    using that by simp
  have b: "blockMinutes (tasks plan ! 0) = Some 60" "blockMinutes (tasks plan ! 1) = Some 30"
    "blockMinutes (tasks plan ! 2) = Some 90" "blockMinutes (tasks plan ! 3) = Some 15"
    "blockMinutes (tasks plan ! 4) = Some 120"
    using blocks [of 0] blocks [of 1] blocks [of 2] blocks [of 3] blocks [of 4]
      cx [of 0] cx [of 1] cx [of 2] cx [of 3] cx [of 4]
    by simp_all
  from c p cs t s e first next01 next34 b show ?thesis
    by - (rule exI [of _ c], rule exI [of _ plan], simp)
qed

lemma empty_database_context:
  "(case buildPromptContext (sampleDatabase []) noon20 ''u1'' midnight20 of
      Inr c \<Rightarrow> availableTasks c = [] | Inl _ \<Rightarrow> False)"
  by code_simp

theorem empty_pool_gives_empty_plan_witness:
  "\<exists>c plan. buildPromptContext (sampleDatabase []) noon20 ''u1'' midnight20 = Inr c \<and>
     availableTasks c = [] \<and>
     generateFallbackPlan (sampleDatabase []) noon20 ''u1'' midnight20 = Inr plan \<and>
     tasks plan = [] \<and> reasoning plan \<noteq> []"
proof -
  from empty_database_context obtain c where
    c: "buildPromptContext (sampleDatabase []) noon20 ''u1'' midnight20 = Inr c" and
    a: "availableTasks c = []"
    by (auto split: sum.splits)
  from empty_pool_gives_empty_plan [of c "sampleDatabase []" noon20 "''u1''" midnight20] a c
  obtain plan where
    "generateFallbackPlan (sampleDatabase []) noon20 ''u1'' midnight20 = Inr plan"
    "reasoning plan \<noteq> []" "plan = heuristicPlan c" "tasks (heuristicPlan c) = []"
    by blast
  with c a show ?thesis
    by - (rule exI [of _ c], rule exI [of _ plan], simp)
qed

lemma failing_database_context:
  "buildPromptContext failingDatabase noon20 ''u1'' midnight20 = Inl unreachable"
  by (simp add: buildPromptContext_def failingDatabase_def)

lemma scenario_unavailable:
  "aiAttempt scenarioDatabase noon20 (Rejects (httpFailure 503)) ''u1'' midnight20 =
     Inl (classify (httpFailure 503)) \<and>
   code (classify (httpFailure 503)) = Some SERVICE_UNAVAILABLE"
  by code_simp

theorem fallback_catches_its_own_failures_witness:
  "buildPromptContext failingDatabase noon20 ''u1'' midnight20 = Inl unreachable \<and>
   generateFallbackPlan failingDatabase noon20 ''u1'' midnight20 =
     Inr \<lparr>tasks = [], reasoning = 
       ''Unable to generate plan due to technical difficulties. Please try again later.''\<rparr> \<and>
   aiAttempt scenarioDatabase noon20 (Rejects (httpFailure 503)) ''u1'' midnight20 =
     Inl (classify (httpFailure 503)) \<and>
   code (classify (httpFailure 503)) = Some SERVICE_UNAVAILABLE \<and>
   generateDailyPlan scenarioDatabase noon20 (Rejects (httpFailure 503))
     failingDatabase noon20 ''u1'' midnight20 =
     Inr \<lparr>tasks = [], reasoning = 
       ''Unable to generate plan due to technical difficulties. Please try again later.''\<rparr>"
proof -
  note inst = fallback_catches_its_own_failures
          [of failingDatabase noon20 "''u1''" midnight20 unreachable
              scenarioDatabase noon20 "Rejects (httpFailure 503)" "classify (httpFailure 503)"]
  from inst failing_database_context
  have f: "generateFallbackPlan failingDatabase noon20 ''u1'' midnight20 =
     Inr \<lparr>tasks = [], reasoning = 
       ''Unable to generate plan due to technical difficulties. Please try again later.''\<rparr>"
    by blast
  from inst failing_database_context scenario_unavailable obtain plan where
    "generateDailyPlan scenarioDatabase noon20 (Rejects (httpFailure 503))
       failingDatabase noon20 ''u1'' midnight20 = Inr plan"
    "tasks plan = []" "reasoning plan = 
       ''Unable to generate plan due to technical difficulties. Please try again later.''"
    by blast
  then have "generateDailyPlan scenarioDatabase noon20 (Rejects (httpFailure 503))
     failingDatabase noon20 ''u1'' midnight20 =
     Inr \<lparr>tasks = [], reasoning = 
       ''Unable to generate plan due to technical difficulties. Please try again later.''\<rparr>"
    by simp
  with f failing_database_context scenario_unavailable show ?thesis by simp
qed

lemma scenario_context:
  "(case buildPromptContext scenarioDatabase noon20 ''u1'' midnight20 of
      Inr c \<Rightarrow> map date (completionHistory c) = [19 * day, 16 * day] \<and>
               availableTasks c = sampleTasks
    | Inl _ \<Rightarrow> False)"
  by code_simp

theorem fallback_iff_service_unavailable_witness:
  "\<exists>c. buildPromptContext scenarioDatabase noon20 ''u1'' midnight20 = Inr c \<and>
     status (httpFailure 429) = Some 429 \<and>
     code (classify (httpFailure 429)) = Some SERVICE_UNAVAILABLE \<and>
     generateDailyPlan scenarioDatabase noon20 (Rejects (httpFailure 429))
       scenarioDatabase noon20 ''u1'' midnight20 =
     generateFallbackPlan scenarioDatabase noon20 ''u1'' midnight20"
proof -
  from scenario_context obtain c where
    c: "buildPromptContext scenarioDatabase noon20 ''u1'' midnight20 = Inr c"
    by (auto split: sum.splits)
  have s: "status (httpFailure 429) = Some 429" by (simp add: httpFailure_def)
  from fallback_iff_service_unavailable
         [OF c, of "httpFailure 429" scenarioDatabase noon20] s
  have "code (classify (httpFailure 429)) = Some SERVICE_UNAVAILABLE"
    "generateDailyPlan scenarioDatabase noon20 (Rejects (httpFailure 429))
       scenarioDatabase noon20 ''u1'' midnight20 =
     generateFallbackPlan scenarioDatabase noon20 ''u1'' midnight20"
    by simp_all
  with c s show ?thesis
    by - (rule exI [of _ c], simp)
qed

text \<open>
  Claim C1 as stated fails: a failure with status 400 and no code is classified
  \<^verbatim>\<open>SERVICE_UNAVAILABLE\<close>, not \<^verbatim>\<open>INTERNAL_SERVER_ERROR\<close>, and the request resolves
  to the fallback plan.
\<close>

theorem bad_request_triggers_fallback_counterexample:
  "status (httpFailure 400) = Some 400 \<and>
   code (classify (httpFailure 400)) = Some SERVICE_UNAVAILABLE \<and>
   code (classify (httpFailure 400)) \<noteq> Some INTERNAL_SERVER_ERROR \<and>
   (case generateDailyPlan scenarioDatabase noon20 (Rejects (httpFailure 400))
           scenarioDatabase noon20 ''u1'' midnight20 of
      Inr plan \<Rightarrow> map taskId (tasks plan) = [''t1'', ''t2'', ''t3'']
    | Inl _ \<Rightarrow> False)"
  by code_simp




text \<open>
  Claim C5, at an input where the code departs from it. The reply has one item, for the
  available task \<open>t2\<close>, with the supplied order \<open>-3\<close>. \<^verbatim>\<open>task.order || index + 1\<close>
  takes a negative number as it is, so the validator returns the item with order
  \<open>-3\<close>, not with its position 1, and \<^verbatim>\<open>generateDailyPlan\<close> hands that plan to the
  caller.
\<close>

theorem negative_order_kept:
  "order_raw (rawItem ''t2'' (Some (- 3))) = Some (- 3) \<and>
   (case validateAndTransformResponse (sampleReply [rawItem ''t2'' (Some (- 3))]) sampleContext of
      Inr plan \<Rightarrow> map taskId (tasks plan) = [''t2''] \<and> map order (tasks plan) = [- 3]
    | Inl _ \<Rightarrow> False) \<and>
   (case generateDailyPlan scenarioDatabase noon20
           (Parsed (sampleReply [rawItem ''t2'' (Some (- 3))]))
           scenarioDatabase noon20 ''u1'' midnight20 of
      Inr plan \<Rightarrow> map taskId (tasks plan) = [''t2''] \<and> map order (tasks plan) = [- 3]
    | Inl _ \<Rightarrow> False)"
  by code_simp

text \<open>
  The ranking of four projects without hard deadlines, of priorities medium, high, low
  and medium, the last with a soft deadline: the run \<open>p0, p1\<close> is descending and is
  reversed, \<open>p2\<close> stays behind it, and \<open>p3\<close> goes in front of \<open>p0\<close>.
\<close>

lemma sortBy_mixedProjects:
  "map project_id (sortBy compareProjects mixedProjects) = [''p1'', ''p3'', ''p0'', ''p2'']"
  by code_simp

text \<open>
  Claim C3, at an input where the code departs from it. The comparator answers 0 whenever
  its first argument has medium priority and the priorities differ. For a user with a
  low-priority and a medium-priority project, no deadlines, delivered in this order, the
  ranking keeps the low-priority project first, and with one project per day the plan is
  made of its task alone.
\<close>

theorem medium_project_ranked_below_low:
  "map project_priority lowThenMedium = [LOW, MEDIUM_PRIORITY] \<and>
   compareProjects (lowThenMedium ! 1) (lowThenMedium ! 0) = 0 \<and>
   compareProjects (lowThenMedium ! 0) (lowThenMedium ! 1) = 1 \<and>
   compareProjects (sampleProject ''pm'' MEDIUM_PRIORITY []) (sampleProject ''ph'' HIGH []) = 0 \<and>
   (case buildPromptContext lowMediumDatabase noon20 ''u1'' midnight20 of
      Inr c \<Rightarrow>
        projects c = lowThenMedium \<and>
        projectsPerDay (user c) = 1 \<and>
        map project_id (sortBy compareProjects (projects c)) = [''pl'', ''pm''] \<and>
        map project_id (selectedProjects c) = [''pl'']
    | Inl _ \<Rightarrow> False) \<and>
   (case generateFallbackPlan lowMediumDatabase noon20 ''u1'' midnight20 of
      Inr plan \<Rightarrow> map taskId (tasks plan) = [''tl'']
    | Inl _ \<Rightarrow> False)"
  by code_simp

end
